theory Spec2Isabelle
  imports Complex_Main
begin

section \<open>JavaScript values\<close>

text \<open>
  A JavaScript number is a finite value or one of \<open>NaN\<close>, \<open>+Infinity\<close>, \<open>-Infinity\<close>.
  Finite doubles are idealised as real numbers: the arithmetic of the model is exact,
  and the rounding, overflow and underflow of IEEE 754 are not part of it.
\<close>

datatype jsnum = Fin real | NaN | PosInf | NegInf

text \<open>
  The values a payload field can hold: \<open>undefined\<close> (also: the property is absent),
  \<open>null\<close>, a number, a boolean, or a plain object given by its property list (the first
  binding of a key is the property). Strings and arrays are outside the model.
\<close>

datatype jsval = Undefined | Null | Num jsnum | Bool bool | Obj "(string \<times> jsval) list"

text \<open>
  Property access \<open>o.k\<close>; on a primitive that has no such property it is \<open>undefined\<close>.
  It is also the optional chain \<open>o?.k\<close>, which is \<open>undefined\<close> for \<open>null\<close> and \<open>undefined\<close>.
  Where the source reads a property of a value that can be \<open>null\<close> or \<open>undefined\<close>
  without a guard, the \<open>TypeError\<close> is a branch of the function that reads it.
\<close>

fun get :: "jsval \<Rightarrow> string \<Rightarrow> jsval" where
  "get (Obj kvs) k = (case map_of kvs k of None \<Rightarrow> Undefined | Some v \<Rightarrow> v)"
| "get _ k = Undefined"

text \<open>\<open>Number(v)\<close>, the coercion \<open>ToNumber\<close>.\<close>

fun Number :: "jsval \<Rightarrow> jsnum" where
  "Number Undefined = NaN"
| "Number Null = Fin 0"
| "Number (Num n) = n"
| "Number (Bool b) = Fin (if b then 1 else 0)"
| "Number (Obj kvs) = NaN"

text \<open>Truthiness, as \<open>||\<close> and \<open>!\<close> test it.\<close>

fun truthy :: "jsval \<Rightarrow> bool" where
  "truthy Undefined = False"
| "truthy Null = False"
| "truthy (Num (Fin x)) = (x \<noteq> 0)"
| "truthy (Num NaN) = False"
| "truthy (Num _) = True"
| "truthy (Bool b) = b"
| "truthy (Obj kvs) = True"

text \<open>\<open>a || b\<close> and \<open>a ?? b\<close>; \<open>v == null\<close> holds of \<open>null\<close> and \<open>undefined\<close>.\<close>

definition js_or :: "jsval \<Rightarrow> jsval \<Rightarrow> jsval" where
  "js_or a b = (if truthy a then a else b)"

definition nullish :: "jsval \<Rightarrow> bool" where
  "nullish v = (v = Undefined \<or> v = Null)"

definition nc :: "jsval \<Rightarrow> jsval \<Rightarrow> jsval" where
  "nc a b = (if nullish a then b else a)"

text \<open>\<open>v / c\<close> for a positive finite constant \<open>c\<close>, after \<open>ToNumber\<close>.\<close>

fun js_div :: "jsval \<Rightarrow> real \<Rightarrow> jsnum" where
  "js_div v c = (case Number v of Fin x \<Rightarrow> Fin (x / c) | n \<Rightarrow> n)"

text \<open>\<open>Math.round\<close>: the nearest integer, a tie going up.\<close>

definition Math_round :: "real \<Rightarrow> int" where
  "Math_round x = \<lfloor>x + 1 / 2\<rfloor>"

section \<open>The risk scoring engine (shared/risk.js)\<close>

text \<open>
  \<open>clamp(n, min, max)\<close>: a value that is not finite gives \<open>min\<close>. The callers that pass a
  computed number pass it as \<open>Fin\<close>.
\<close>

fun clamp :: "jsnum \<Rightarrow> real \<Rightarrow> real \<Rightarrow> real" where
  "clamp (Fin x) lo hi = min (max x lo) hi"
| "clamp _ lo hi = lo"

text \<open>
  \<open>clampNum(n, fallback)\<close> is called with a finite fallback, or with the fallback \<open>NaN\<close>
  and then tested with \<open>Number.isFinite\<close>. The first use is \<open>clampNum\<close>; the second is
  \<open>clampNumNaN\<close>, whose result \<open>None\<close> is the \<open>NaN\<close> that fails the test.
\<close>

fun clampNum :: "jsval \<Rightarrow> real \<Rightarrow> real" where
  "clampNum n fallback = (case Number n of Fin x \<Rightarrow> x | _ \<Rightarrow> fallback)"

fun clampNumNaN :: "jsval \<Rightarrow> real option" where
  "clampNumNaN n = (case Number n of Fin x \<Rightarrow> Some x | _ \<Rightarrow> None)"

definition pct :: "real \<Rightarrow> int" where
  "pct x01 = Math_round (clamp (Fin x01) 0 1 * 100)"

definition labelFromPercent :: "int \<Rightarrow> string" where
  "labelFromPercent p =
     (let x = clampNum (Num (Fin (of_int p))) 0 in
      if x \<le> 30 then ''Low'' else if x \<le> 60 then ''Medium'' else ''High'')"

text \<open>
  \<open>decayScore\<close>. The model evaluates \<open>ln\<close>, the product, the quotient and \<open>exp\<close> exactly,
  while the code rounds each of them to a double; \<open>decayScore_double\<close> below follows the
  code's rounding.
\<close>

definition decayScore :: "jsval \<Rightarrow> jsval \<Rightarrow> real" where
  "decayScore daysSinceSpray halfLifeDays =
     (let d = clampNum daysSinceSpray 0;
          h = clampNum halfLifeDays 0
      in if h \<le> 0 then clamp (Fin 0.5) 0 1
         else let ln2 = ln 2;
                  fraction = exp (- (ln2 * d) / h)
              in clamp (Fin fraction) 0 1)"

text \<open>
  \<open>doseScore\<close>. The hyperbolic tangent of the model is below \<open>1\<close> everywhere, while
  \<open>Math.tanh\<close> returns the double \<open>1\<close> for arguments above about \<open>19\<close>: for such ratios the
  code's score is \<open>1\<close> and the model's is just below it.
\<close>

definition doseScore :: "jsval \<Rightarrow> jsval \<Rightarrow> real" where
  "doseScore appliedDose recommendedDose =
     (let applied = clampNum appliedDose 0;
          rec = clampNum recommendedDose 0
      in if rec \<le> 0 then 0
         else let ratio = applied / rec;
                  s = (if ratio \<le> 0 then 0
                       else if ratio \<le> 1 then 0.15 + 0.55 * ratio
                       else 0.70 + 0.30 * tanh ((ratio - 1) * 1.2))
              in clamp (Fin s) 0 1)"

definition phScore :: "jsval \<Rightarrow> jsval \<Rightarrow> real" where
  "phScore leafPh soilPh =
     (let lp = clampNumNaN leafPh;
          sp = clampNumNaN soilPh
      in if lp = None \<and> sp = None then 0.25
         else let leafDist = (case lp of Some l \<Rightarrow> min (\<bar>l - 7\<bar> / 3) 1 | None \<Rightarrow> 0.25);
                  soilDist = (case sp of Some s \<Rightarrow> min (\<bar>s - 7\<bar> / 3) 1 | None \<Rightarrow> 0.25)
              in clamp (Fin (0.2 + 0.6 * (0.5 * leafDist + 0.5 * soilDist))) 0 1)"

definition moistureScore :: "jsval \<Rightarrow> real" where
  "moistureScore moisture =
     (case clampNumNaN moisture of
        None \<Rightarrow> 0.35
      | Some m \<Rightarrow> let x = clamp (Fin (m / 100)) 0 1 in clamp (Fin (0.25 + 0.55 * x)) 0 1)"

text \<open>
  \<open>weatherScore(weather = {})\<close>. The three temperature tests and the humidity, rain and
  wind terms update \<open>score\<close> one after the other; each \<open>let\<close> is one of these updates.
\<close>

definition weatherScore :: "jsval \<Rightarrow> real" where
  "weatherScore weather0 =
     (let weather = (if weather0 = Undefined then Obj [] else weather0);
          tempC = clampNumNaN (nc (nc (get weather ''tempC'') (get weather ''temperatureC'')) (get weather ''temperature''));
          humidity = clampNumNaN (nc (get weather ''humidity'') (get weather ''humidityPct''));
          rainfallMm = clampNumNaN (nc (nc (get weather ''rainfallMm'') (get weather ''rainMm'')) (get weather ''rain''));
          windKph = clampNumNaN (nc (nc (get weather ''windKph'') (get weather ''windSpeedKph'')) (get weather ''wind''));
          score = 0.35;
          score = (case tempC of
                     None \<Rightarrow> score
                   | Some t \<Rightarrow>
                       let score = (if t \<ge> 18 \<and> t \<le> 35 then score + 0.10 else score);
                           score = (if t > 35 then score + 0.12 else score);
                           score = (if t < 12 then score - 0.06 else score)
                       in score);
          score = (case humidity of
                     None \<Rightarrow> score
                   | Some hu \<Rightarrow> let h = clamp (Fin (hu / 100)) 0 1 in score + 0.18 * h);
          score = (case rainfallMm of
                     None \<Rightarrow> score
                   | Some r \<Rightarrow> let wash = min (r / 20) 1 in score - 0.20 * wash);
          score = (case windKph of
                     None \<Rightarrow> score
                   | Some wk \<Rightarrow> let w = clamp (Fin (wk / 35)) 0 1 in score + 0.06 * w)
      in clamp (Fin score) 0 1)"

text \<open>
  \<open>computeAiContribution({ stressScore, confidence = 50, daysSinceSpray })\<close>: the default
  replaces a confidence that is \<open>undefined\<close>.
\<close>

definition computeAiContribution :: "jsval \<Rightarrow> jsval \<Rightarrow> jsval \<Rightarrow> real" where
  "computeAiContribution stressScore confidence0 daysSinceSpray =
     (let confidence = (if confidence0 = Undefined then Num (Fin 50) else confidence0)
      in if nullish stressScore then 0
         else let stress = clamp (js_div stressScore 100) 0 1;
                  conf = clamp (js_div confidence 100) 0.3 1;
                  d = clampNum daysSinceSpray 0;
                  timeFactor = (if d \<ge> 14 then 0.4 else if d \<ge> 7 then 0.65 else 1);
                  softenedStress = (if stress < 0.4 then stress * 0.7
                                    else if stress < 0.7 then stress * 0.85
                                    else stress * 1.0);
                  aiScore = softenedStress * conf * timeFactor
              in min (aiScore * 0.25) 0.25)"

record breakdown =
  b_doseScore :: real
  b_decayScore :: real
  b_weatherScore :: real
  b_moistureScore :: real
  b_phScore :: real
  b_aiContribution :: real
  b_baseScore :: real
  b_totalScore :: real

record risk =
  riskPercent :: int
  level :: string
  breakdown :: breakdown
  tips :: "string list"

datatype error = TypeError

text \<open>
  \<open>calculateRisk(payload = {})\<close>. Reading \<open>payload.inputs\<close> of \<open>null\<close> raises a
  \<open>TypeError\<close>; every other receiver is guarded by \<open>||\<close>. The sanity rules rebind
  \<open>riskPercent\<close> in the order of the source; \<open>tips\<close> is the list of the pushes, in order.
  \<open>Number.isFinite(v)\<close> holds only of a finite value of type number, \<open>Num (Fin x)\<close>.
\<close>

definition calculateRisk :: "jsval \<Rightarrow> error + risk" where
  "calculateRisk payload0 =
     (let payload = (if payload0 = Undefined then Obj [] else payload0)
      in if payload = Null then Inl TypeError
      else
      let inputs = js_or (js_or (get payload ''inputs'') payload) (Obj []);
          weather = js_or (get payload ''weather'') (Obj []);
          ai = js_or (get payload ''ai'') (Obj []);
          appliedDose = nc (nc (get inputs ''appliedDose'') (get inputs ''dose'')) (get inputs ''userDose'');
          recommendedDose = nc (nc (get inputs ''recommendedDose'') (get inputs ''recDose'')) (get inputs ''recommended'');
          daysSinceSpray = nc (nc (get inputs ''daysSinceSpray'') (get inputs ''days'')) (get inputs ''sprayDays'');
          halfLifeDays = nc (nc (get inputs ''halfLifeDays'') (get inputs ''halfLife'')) (get inputs ''halflife'');
          leafPh = nc (get inputs ''leafPh'') (get inputs ''leafPH'');
          soilPh = nc (get inputs ''soilPh'') (get inputs ''soilPH'');
          moisture = get inputs ''moisture'';
          aiStress = nc (nc (get ai ''stressScore'') (get ai ''imageStress'')) (get inputs ''imageStress'');
          aiConfidence = nc (get ai ''confidence'') (Num (Fin 50));
          sDose = doseScore appliedDose recommendedDose;
          sDecay = decayScore daysSinceSpray halfLifeDays;
          sPh = phScore leafPh soilPh;
          sMoist = moistureScore moisture;
          sWeather = weatherScore weather;
          aiContribution = computeAiContribution aiStress aiConfidence daysSinceSpray;
          W_DOSE = 0.22;
          W_DECAY = 0.28;
          W_WEATHER = 0.18;
          W_MOIST = 0.14;
          W_PH = 0.10;
          base = W_DOSE * sDose + W_DECAY * sDecay + W_WEATHER * sWeather
                   + W_MOIST * sMoist + W_PH * sPh;
          base = clamp (Fin base) 0 1;
          total01 = clamp (Fin (base + aiContribution)) 0 1;
          riskPercent = pct total01;
          d = clampNum daysSinceSpray 0;
          riskPercent = (if d \<ge> 20 \<and> riskPercent > 60 \<and> aiContribution > 0.15
                         then min riskPercent 55 else riskPercent);
          riskPercent = (if sDose < 0.2 \<and> sDecay < 0.2
                         then min riskPercent 45 else riskPercent);
          riskPercent = (if clampNum aiStress 0 > 80 \<and> clampNum aiConfidence 0 < 40
                         then max (riskPercent - 10) 0 else riskPercent);
          level = labelFromPercent riskPercent;
          breakdown = \<lparr> b_doseScore = sDose,
                        b_decayScore = sDecay,
                        b_weatherScore = sWeather,
                        b_moistureScore = sMoist,
                        b_phScore = sPh,
                        b_aiContribution = aiContribution,
                        b_baseScore = base,
                        b_totalScore = clamp (Fin (of_int riskPercent / 100)) 0 1 \<rparr>;
          tips =
            (if riskPercent \<ge> 61
             then [''High risk: follow label intervals and consider waiting before harvest.'']
             else [])
            @ (if d < 3
               then [''Recent spray: residue is likely higher in the first few days.'']
               else [])
            @ (case (recommendedDose, appliedDose) of
                 (Num (Fin r), Num (Fin a)) \<Rightarrow>
                   if r > 0 \<and> a / r > 1.05
                   then [''Applied dose looks higher than recommended. Verify dilution and nozzle calibration.'']
                   else []
               | _ \<Rightarrow> [])
            @ (if clampNum (get weather ''humidity'') 0 \<ge> 80
               then [''High humidity can increase plant stress; confirm with field conditions.'']
               else [])
            @ (if \<not> nullish aiStress \<and> clampNum aiStress 0 \<ge> 75
               then [''Leaf stress detected: inspect for pests, disease, or nutrient stress too.'']
               else [])
      in Inr \<lparr> riskPercent = riskPercent, level = level, breakdown = breakdown, tips = tips \<rparr>)"

text \<open>\<open>computeAiScoreForDebug\<close> passes its three fields on.\<close>

definition computeAiScoreForDebug :: "jsval \<Rightarrow> jsval \<Rightarrow> jsval \<Rightarrow> real" where
  "computeAiScoreForDebug stressScore confidence daysSinceSpray =
     computeAiContribution stressScore confidence daysSinceSpray"

subsection \<open>Named parts of the engine\<close>


definition ai_conf :: "jsval \<Rightarrow> real" where
  "ai_conf confidence0 =
     (let confidence = (if confidence0 = Undefined then Num (Fin 50) else confidence0)
      in clamp (js_div confidence 100) 0.3 1)"

definition ai_timeFactor :: "jsval \<Rightarrow> real" where
  "ai_timeFactor daysSinceSpray =
     (let d = clampNum daysSinceSpray 0 in if d \<ge> 14 then 0.4 else if d \<ge> 7 then 0.65 else 1)"

definition ai_softened :: "jsval \<Rightarrow> real" where
  "ai_softened stressScore =
     (let stress = clamp (js_div stressScore 100) 0 1
      in if stress < 0.4 then stress * 0.7 else if stress < 0.7 then stress * 0.85 else stress * 1.0)"

definition sanity_rules :: "real \<Rightarrow> real \<Rightarrow> real \<Rightarrow> real \<Rightarrow> jsval \<Rightarrow> jsval \<Rightarrow> int \<Rightarrow> int" where
  "sanity_rules d aiContribution sDose sDecay aiStress aiConfidence riskPercent0 =
     (let riskPercent = riskPercent0;
          riskPercent = (if d \<ge> 20 \<and> riskPercent > 60 \<and> aiContribution > 0.15
                         then min riskPercent 55 else riskPercent);
          riskPercent = (if sDose < 0.2 \<and> sDecay < 0.2
                         then min riskPercent 45 else riskPercent);
          riskPercent = (if clampNum aiStress 0 > 80 \<and> clampNum aiConfidence 0 < 40
                         then max (riskPercent - 10) 0 else riskPercent)
      in riskPercent)"

definition risk_tips :: "int \<Rightarrow> real \<Rightarrow> jsval \<Rightarrow> jsval \<Rightarrow> jsval \<Rightarrow> jsval \<Rightarrow> string list" where
  "risk_tips percent d recommendedDose appliedDose weather aiStress =
     (if percent \<ge> 61
      then [''High risk: follow label intervals and consider waiting before harvest.'']
      else [])
     @ (if d < 3
        then [''Recent spray: residue is likely higher in the first few days.'']
        else [])
     @ (case (recommendedDose, appliedDose) of
          (Num (Fin r), Num (Fin a)) \<Rightarrow>
            if r > 0 \<and> a / r > 1.05
            then [''Applied dose looks higher than recommended. Verify dilution and nozzle calibration.'']
            else []
        | _ \<Rightarrow> [])
     @ (if clampNum (get weather ''humidity'') 0 \<ge> 80
        then [''High humidity can increase plant stress; confirm with field conditions.'']
        else [])
     @ (if \<not> nullish aiStress \<and> clampNum aiStress 0 \<ge> 75
        then [''Leaf stress detected: inspect for pests, disease, or nutrient stress too.'']
        else [])"

definition fuse_scores ::
  "jsval \<Rightarrow> jsval \<Rightarrow> jsval \<Rightarrow> jsval \<Rightarrow> jsval \<Rightarrow> jsval
     \<Rightarrow> real \<Rightarrow> real \<Rightarrow> real \<Rightarrow> real \<Rightarrow> real \<Rightarrow> real \<Rightarrow> risk" where
  "fuse_scores appliedDose recommendedDose daysSinceSpray weather aiStress aiConfidence
       sDose sDecay sPh sMoist sWeather aiContribution =
     (let base = clamp (Fin (0.22 * sDose + 0.28 * sDecay + 0.18 * sWeather
                              + 0.14 * sMoist + 0.10 * sPh)) 0 1;
          total01 = clamp (Fin (base + aiContribution)) 0 1;
          d = clampNum daysSinceSpray 0;
          riskPercent = sanity_rules d aiContribution sDose sDecay aiStress aiConfidence (pct total01)
      in \<lparr> riskPercent = riskPercent,
           level = labelFromPercent riskPercent,
           breakdown = \<lparr> b_doseScore = sDose,
                         b_decayScore = sDecay,
                         b_weatherScore = sWeather,
                         b_moistureScore = sMoist,
                         b_phScore = sPh,
                         b_aiContribution = aiContribution,
                         b_baseScore = base,
                         b_totalScore = clamp (Fin (of_int riskPercent / 100)) 0 1 \<rparr>,
           tips = risk_tips riskPercent d recommendedDose appliedDose weather aiStress \<rparr>)"

definition score_payload :: "jsval \<Rightarrow> risk" where
  "score_payload payload =
     (let inputs = js_or (js_or (get payload ''inputs'') payload) (Obj []);
          weather = js_or (get payload ''weather'') (Obj []);
          ai = js_or (get payload ''ai'') (Obj []);
          appliedDose = nc (nc (get inputs ''appliedDose'') (get inputs ''dose'')) (get inputs ''userDose'');
          recommendedDose = nc (nc (get inputs ''recommendedDose'') (get inputs ''recDose'')) (get inputs ''recommended'');
          daysSinceSpray = nc (nc (get inputs ''daysSinceSpray'') (get inputs ''days'')) (get inputs ''sprayDays'');
          halfLifeDays = nc (nc (get inputs ''halfLifeDays'') (get inputs ''halfLife'')) (get inputs ''halflife'');
          leafPh = nc (get inputs ''leafPh'') (get inputs ''leafPH'');
          soilPh = nc (get inputs ''soilPh'') (get inputs ''soilPH'');
          moisture = get inputs ''moisture'';
          aiStress = nc (nc (get ai ''stressScore'') (get ai ''imageStress'')) (get inputs ''imageStress'');
          aiConfidence = nc (get ai ''confidence'') (Num (Fin 50))
      in fuse_scores appliedDose recommendedDose daysSinceSpray weather aiStress aiConfidence
           (doseScore appliedDose recommendedDose)
           (decayScore daysSinceSpray halfLifeDays)
           (phScore leafPh soilPh)
           (moistureScore moisture)
           (weatherScore weather)
           (computeAiContribution aiStress aiConfidence daysSinceSpray))"

subsection \<open>The AI contribution as the specification words it\<close>

text \<open>
  The contribution for a numeric stress score, confidence and number of days, written
  from the specification: the stress and the confidence are percentages brought to
  \<open>[0, 1]\<close> and \<open>[0.3, 1]\<close>, the time factor has three bands, the stress is softened in
  three bands, and the product is weighted by \<open>0.25\<close> and capped at \<open>0.25\<close>.
\<close>

definition spec_aiContribution :: "real \<Rightarrow> real \<Rightarrow> real \<Rightarrow> real" where
  "spec_aiContribution stressScore confidence days =
     (let stress = min (max (stressScore / 100) 0) 1;
          conf = min (max (confidence / 100) 0.3) 1;
          timeFactor = (if days < 7 then 1.0 else if days < 14 then 0.65 else 0.4);
          stress_softened = (if stress < 0.4 then stress * 0.7
                             else if stress < 0.7 then stress * 0.85
                             else stress * 1.0)
      in min (stress_softened * conf * timeFactor * 0.25) 0.25)"

subsection \<open>A payload in its three groups\<close>

text \<open>
  The payload \<open>{ inputs, weather, ai }\<close> with the property lists of \<open>inputs\<close> and \<open>ai\<close>, and
  the stress score and the days since the spray that \<open>calculateRisk\<close> reads from it.
\<close>

definition payload_groups :: "(string \<times> jsval) list \<Rightarrow> jsval \<Rightarrow> (string \<times> jsval) list \<Rightarrow> jsval" where
  "payload_groups ikvs weather aikvs =
     Obj [(''inputs'', Obj ikvs), (''weather'', weather), (''ai'', Obj aikvs)]"

definition group_stress :: "(string \<times> jsval) list \<Rightarrow> (string \<times> jsval) list \<Rightarrow> jsval" where
  "group_stress ikvs aikvs =
     nc (nc (get (Obj aikvs) ''stressScore'') (get (Obj aikvs) ''imageStress''))
        (get (Obj ikvs) ''imageStress'')"

definition group_days :: "(string \<times> jsval) list \<Rightarrow> jsval" where
  "group_days ikvs =
     nc (nc (get (Obj ikvs) ''daysSinceSpray'') (get (Obj ikvs) ''days'')) (get (Obj ikvs) ''sprayDays'')"

subsection \<open>Example payloads\<close>

text \<open>
  The payload of the end-to-end scenario; the same inputs with a stressed leaf seen at low
  confidence; and the payload of the second sanity rule, with any weather and AI group.
\<close>

definition payload_fresh :: jsval where
  "payload_fresh =
     Obj [(''inputs'', Obj [(''appliedDose'', Num (Fin 1)), (''recommendedDose'', Num (Fin 1)),
                            (''daysSinceSpray'', Num (Fin 0)), (''halfLifeDays'', Num (Fin 5))])]"

definition payload_low_confidence :: jsval where
  "payload_low_confidence =
     Obj [(''inputs'', Obj [(''appliedDose'', Num (Fin 1)), (''recommendedDose'', Num (Fin 1)),
                            (''daysSinceSpray'', Num (Fin 0)), (''halfLifeDays'', Num (Fin 5))]),
          (''ai'', Obj [(''stressScore'', Num (Fin 90)), (''confidence'', Num (Fin 30))])]"

definition payload_decayed :: "jsval \<Rightarrow> jsval \<Rightarrow> jsval" where
  "payload_decayed weather ai =
     Obj [(''inputs'', Obj [(''appliedDose'', Num (Fin 0)), (''recommendedDose'', Num (Fin 10)),
                            (''daysSinceSpray'', Num (Fin 60)), (''halfLifeDays'', Num (Fin 3))]),
          (''weather'', weather), (''ai'', ai)]"

section \<open>The decay score in the arithmetic of doubles\<close>











section \<open>The scan endpoint (server/index.js)\<close>

text \<open>
  \<open>toNumber(v)\<close> is \<open>Number(v)\<close> when that is finite and \<open>NaN\<close> otherwise; \<open>None\<close> is the
  \<open>NaN\<close>. A score that can be \<open>NaN\<close> has the type \<open>real option\<close>.
\<close>

fun toNumber :: "jsval \<Rightarrow> real option" where
  "toNumber v = (case Number v of Fin x \<Rightarrow> Some x | _ \<Rightarrow> None)"

text \<open>The first return of \<open>riskLevelFromPercent\<close> is an em dash, here in UTF-8.\<close>

definition riskLevelFromPercent :: "int option \<Rightarrow> string" where
  "riskLevelFromPercent p =
     (case p of
        None \<Rightarrow> [CHR 0xE2, CHR 0x80, CHR 0x94]
      | Some p \<Rightarrow> if p \<ge> 70 then ''High'' else if p \<ge> 35 then ''Medium'' else ''Low'')"

definition clamp01 :: "real \<Rightarrow> real" where
  "clamp01 x = min 1 (max 0 x)"

text \<open>
  \<open>buildTips\<close>: a comparison with \<open>NaN\<close> is false, so a \<open>NaN\<close> percentage or dose score
  pushes nothing.
\<close>

definition buildTips :: "int option \<Rightarrow> real option \<Rightarrow> real \<Rightarrow> real \<Rightarrow> real \<Rightarrow> string list" where
  "buildTips percent dose residueFactor weather imageStressScore =
     take 8
      ((case percent of Some p \<Rightarrow>
          (if p \<ge> 70
           then [''High risk detected: avoid immediate harvest and consider expert guidance.'']
           else [])
          @ (if p \<ge> 35 \<and> p < 70
             then [''Moderate risk: monitor plant response and avoid over-application.'']
             else [])
          @ (if p < 35
             then [''Low risk: continue monitoring and follow label instructions.'']
             else [])
        | None \<Rightarrow> [])
       @ (case dose of Some ds \<Rightarrow>
            if ds > 0.65
            then [''Dose seems high relative to recommended. Reduce dose next spray if possible.'']
            else []
          | None \<Rightarrow> [])
       @ (if residueFactor > 0.65
          then [''Recent spray detected. Risk may drop after a few more days.'']
          else [])
       @ (if weather > 0.6
          then [''Weather stress is high (heat/humidity/rain). Prefer spraying in cooler, calmer conditions.'']
          else [])
       @ (if imageStressScore > 0.6
          then [''Leaf appears stressed. Avoid additional stress (over-spraying, midday spraying).'']
          else [])
       @ [''Always follow label safety intervals and wear protection while spraying.''])"

record server_breakdown =
  s_doseScore :: "real option"
  s_residueFactor :: real
  s_leafPhScore :: real
  s_soilPhScore :: real
  s_moistureScore :: real
  s_weatherScore :: real
  s_imageStressScore :: real

record server_risk =
  s_riskPercent :: "int option"
  s_level :: string
  s_breakdown :: server_breakdown
  s_tips :: "string list"

text \<open>
  \<open>computeRisk(inputs)\<close>, the placeholder scoring of the server. Reading
  \<open>inputs.recommendedDose\<close> of \<open>null\<close> or \<open>undefined\<close> raises a \<open>TypeError\<close>;
  \<open>inputs?.weather?.tempC\<close> does not, and \<open>get\<close> of a nullish value is \<open>undefined\<close> as
  the optional chain is. The dose score, the weighted sum and the percentage are \<open>NaN\<close>
  when the recommended dose is.
\<close>

definition computeRisk :: "jsval \<Rightarrow> error + server_risk" where
  "computeRisk inputs =
     (if nullish inputs then Inl TypeError
      else
      let recommendedDose = toNumber (get inputs ''recommendedDose'');
          daysSinceSpray = toNumber (get inputs ''daysSinceSpray'');
          halfLifeDays = toNumber (get inputs ''halfLifeDays'');
          leafPh = toNumber (get inputs ''leafPh'');
          soilPh = toNumber (get inputs ''soilPh'');
          soilMoisture = toNumber (get inputs ''soilMoisture'');
          imageStress = toNumber (get inputs ''imageStress'');
          tempC = toNumber (get (get inputs ''weather'') ''tempC'');
          humidity = toNumber (get (get inputs ''weather'') ''humidity'');
          rainMm24h = toNumber (get (get inputs ''weather'') ''rainMm24h'');
          doseScore = (case recommendedDose of
                         Some rd \<Rightarrow> Some (clamp01 ((rd - 1) / 3 + 0.4))
                       | None \<Rightarrow> None);
          residueFactor = (case (daysSinceSpray, halfLifeDays) of
                             (Some d, Some h) \<Rightarrow>
                               if h > 0 then clamp01 (exp (- ln 2 * (d / h))) else 0.6
                           | _ \<Rightarrow> 0.6);
          leafPhScore = (case leafPh of Some l \<Rightarrow> clamp01 (\<bar>6.5 - l\<bar> / 3) | None \<Rightarrow> 0.2);
          soilPhScore = (case soilPh of Some s \<Rightarrow> clamp01 (\<bar>6.8 - s\<bar> / 3) | None \<Rightarrow> 0.2);
          moistureScore = (case soilMoisture of
                             Some m \<Rightarrow> let ideal = 55 in clamp01 (\<bar>ideal - m\<bar> / 55)
                           | None \<Rightarrow> 0.2);
          weatherScore =
            (if tempC \<noteq> None \<or> humidity \<noteq> None \<or> rainMm24h \<noteq> None
             then let t = (case tempC of Some tc \<Rightarrow> clamp01 ((tc - 25) / 15) | None \<Rightarrow> 0.2);
                      h = (case humidity of Some hu \<Rightarrow> clamp01 ((hu - 55) / 40) | None \<Rightarrow> 0.2);
                      r = (case rainMm24h of Some rm \<Rightarrow> clamp01 (rm / 80) | None \<Rightarrow> 0.0)
                  in clamp01 (0.55 * t + 0.35 * h + 0.10 * r)
             else 0.2);
          imageStressScore = (case imageStress of Some i \<Rightarrow> clamp01 (i / 100) | None \<Rightarrow> 0.25);
          risk01 = (case doseScore of
                      Some ds \<Rightarrow>
                        Some (0.22 * ds + 0.24 * residueFactor + 0.14 * leafPhScore
                              + 0.10 * soilPhScore + 0.10 * moistureScore
                              + 0.10 * weatherScore + 0.10 * imageStressScore)
                    | None \<Rightarrow> None);
          riskPercent = (case risk01 of
                           Some x \<Rightarrow> Some (Math_round (clamp01 x * 100))
                         | None \<Rightarrow> None)
      in Inr \<lparr> s_riskPercent = riskPercent,
               s_level = riskLevelFromPercent riskPercent,
               s_breakdown = \<lparr> s_doseScore = doseScore,
                               s_residueFactor = residueFactor,
                               s_leafPhScore = leafPhScore,
                               s_soilPhScore = soilPhScore,
                               s_moistureScore = moistureScore,
                               s_weatherScore = weatherScore,
                               s_imageStressScore = imageStressScore \<rparr>,
               s_tips = buildTips riskPercent doseScore residueFactor weatherScore imageStressScore \<rparr>)"

text \<open>
  The request of \<open>POST /api/scan\<close> after the multipart parser: the uploaded file, if any,
  and the \<open>inputs\<close> field of the body. The field is a value that is not a string
  (\<open>undefined\<close> when it is absent), the empty string, or a non-empty string together with
  the result of \<open>JSON.parse\<close> on it (\<open>None\<close> when parsing throws).
\<close>

record upload =
  up_mimetype :: "string option"
  up_size :: nat

datatype body_inputs = InputsValue jsval | InputsEmpty | InputsText "jsval option"

record scan_request =
  req_file :: "upload option"
  req_inputs :: body_inputs

record scan_meta =
  received_crop :: jsval
  received_pesticide :: jsval
  received_recommendedDose :: jsval
  file_mimetype :: "string option"
  file_size :: nat

datatype response =
    Status400 string
  | Status500 string
  | Status200 server_risk scan_meta

definition startsWith :: "string \<Rightarrow> string \<Rightarrow> bool" where
  "startsWith s p = (take (length p) s = p)"

text \<open>
  The handler. Each early \<open>return res.status(400)\<close> is a branch; an exception inside the
  \<open>try\<close> block is answered with the status 500.
\<close>

definition scan :: "scan_request \<Rightarrow> response" where
  "scan req =
     (case req_file req of
        None \<Rightarrow> Status400 ''Leaf image is required.''
      | Some file \<Rightarrow>
          if \<not> (case up_mimetype file of None \<Rightarrow> False | Some m \<Rightarrow> startsWith m ''image/'')
          then Status400 ''Invalid file type. Please upload an image.''
          else
            let parsed =
                  (case req_inputs req of
                     InputsValue v \<Rightarrow> if \<not> truthy v then Inl ''inputs is required.'' else Inr v
                   | InputsEmpty \<Rightarrow> Inl ''inputs is required.''
                   | InputsText None \<Rightarrow> Inl ''Invalid inputs JSON.''
                   | InputsText (Some v) \<Rightarrow> Inr v)
            in case parsed of
                 Inl msg \<Rightarrow> Status400 msg
               | Inr inputs \<Rightarrow>
                   let recommendedDose = toNumber (get inputs ''recommendedDose'')
                   in if \<not> (case recommendedDose of Some rd \<Rightarrow> rd > 0 | None \<Rightarrow> False)
                      then Status400 ''recommendedDose is required and must be > 0''
                      else case computeRisk inputs of
                             Inl e \<Rightarrow> Status500 ''Server error while scanning.''
                           | Inr out \<Rightarrow>
                               Status200 out
                                 \<lparr> received_crop = get inputs ''crop'',
                                   received_pesticide = get inputs ''pesticide'',
                                   received_recommendedDose = get inputs ''recommendedDose'',
                                   file_mimetype = up_mimetype file,
                                   file_size = up_size file \<rparr>)"

text \<open>
  The router of the second scan route, which is not mounted by the server above. It
  relays the result of the function it imports from the engine's module under the name
  \<open>calculatePhytotoxicRisk\<close>; that function is the parameter \<open>engine\<close>. The body is
  \<open>req.body || {}\<close>.
\<close>

datatype 'a router_response =
    Router400 string
  | Router500 string
  | Router200 'a

definition router_scan :: "(jsval \<Rightarrow> error + 'a) \<Rightarrow> jsval \<Rightarrow> 'a router_response" where
  "router_scan engine body =
     (let payload = js_or body (Obj [])
      in if \<not> truthy (get payload ''recommendedDose'')
            \<or> (case Number (get payload ''recommendedDose'') of
                  Fin x \<Rightarrow> x \<le> 0 | NegInf \<Rightarrow> True | _ \<Rightarrow> False)
         then Router400 ''recommendedDose is required and must be > 0''
         else case engine payload of
                Inl e \<Rightarrow> Router500 ''Internal server error''
              | Inr result \<Rightarrow> Router200 result)"

text \<open>The request with the inputs of the end-to-end scenario, sent as JSON text with a PNG.\<close>

definition inputs_fresh :: jsval where
  "inputs_fresh =
     Obj [(''appliedDose'', Num (Fin 1)), (''recommendedDose'', Num (Fin 1)),
          (''daysSinceSpray'', Num (Fin 0)), (''halfLifeDays'', Num (Fin 5))]"

definition request_fresh :: scan_request where
  "request_fresh =
     \<lparr> req_file = Some \<lparr> up_mimetype = Some ''image/png'', up_size = 1000 \<rparr>,
       req_inputs = InputsText (Some inputs_fresh) \<rparr>"

section \<open>The visual stress analyzer (client/src/utils/leafVision.js)\<close>

text \<open>
  The \<open>clamp\<close> of this module has no test of finiteness; it is applied to finite
  numbers only.
\<close>

definition vclamp :: "real \<Rightarrow> real \<Rightarrow> real \<Rightarrow> real" where
  "vclamp n a b = min b (max a n)"

text \<open>
  A decoded image has a width and a height, and a canvas can draw it scaled to \<open>w \<times> h\<close>
  pixels and hand out the \<open>4 \<cdot> w \<cdot> h\<close> bytes (red, green, blue, alpha of each pixel, row
  by row). The scaling filter belongs to the browser: \<open>img_draw\<close> is its result. A file has
  a MIME type and a size in bytes; \<open>f_decoded\<close> is what the browser's decoder makes of
  its content, \<open>None\<close> when the image element reports an error.
\<close>

record image =
  img_width :: nat
  img_height :: nat
  img_draw :: "nat \<Rightarrow> nat \<Rightarrow> nat list"

record jsfile =
  f_type :: string
  f_size :: nat
  f_decoded :: "image option"

text \<open>
  \<open>loadImageFromFile(file)\<close>: the promise is rejected (\<open>None\<close>) when the image does not
  decode, and also when \<open>file\<close> is \<open>null\<close> or \<open>undefined\<close>, since \<open>URL.createObjectURL\<close>
  throws inside the executor of the promise.
\<close>

definition loadImageFromFile :: "jsfile option \<Rightarrow> image option" where
  "loadImageFromFile file = (case file of None \<Rightarrow> None | Some f \<Rightarrow> f_decoded f)"

text \<open>
  \<open>getImageData(img, maxSide)\<close>. For an image of width and height \<open>0\<close> the quotient is
  \<open>+Infinity\<close> and the scale is \<open>1\<close>.
\<close>

definition getImageData :: "image \<Rightarrow> real \<Rightarrow> nat list \<times> nat \<times> nat" where
  "getImageData img maxSide =
     (let scale = (if max (img_width img) (img_height img) = 0 then 1
                   else min 1 (maxSide / real (max (img_width img) (img_height img))));
          w = nat (max 1 (Math_round (real (img_width img) * scale)));
          h = nat (max 1 (Math_round (real (img_height img) * scale)))
      in (img_draw img w h, w, h))"

text \<open>The remainder \<open>x % y\<close> of JavaScript on finite numbers, \<open>y \<noteq> 0\<close>: the quotient is truncated.\<close>

definition js_rem :: "real \<Rightarrow> real \<Rightarrow> real" where
  "js_rem x y = x - y * of_int (if x / y \<ge> 0 then \<lfloor>x / y\<rfloor> else \<lceil>x / y\<rceil>)"

definition rgbToHsv :: "real \<Rightarrow> real \<Rightarrow> real \<Rightarrow> real \<times> real \<times> real" where
  "rgbToHsv r0 g0 b0 =
     (let r = r0 / 255; g = g0 / 255; b = b0 / 255;
          mx = max (max r g) b;
          mn = min (min r g) b;
          d = mx - mn;
          h = (if d \<noteq> 0
               then let h = (if mx = r then js_rem ((g - b) / d) 6
                             else if mx = g then (b - r) / d + 2
                             else (r - g) / d + 4);
                        h = h * 60
                    in if h < 0 then h + 360 else h
               else 0);
          s = (if mx = 0 then 0 else d / mx);
          v = mx
      in (h, s, v))"

text \<open>
  \<open>laplacianVariance(gray, w, h)\<close>: the two loops visit the interior pixels row by row
  and update \<open>sum\<close>, \<open>sumSq\<close> and \<open>count\<close> (here with the prefix \<open>acc\<close>).
\<close>

definition lap_step :: "real list \<Rightarrow> nat \<Rightarrow> nat \<times> nat \<Rightarrow> real \<times> real \<times> nat \<Rightarrow> real \<times> real \<times> nat" where
  "lap_step gray w yx acc =
     (case (yx, acc) of
        ((y, x), (acc_sum, acc_sumSq, acc_count)) \<Rightarrow>
          let idx = (\<lambda>x y. y * w + x);
              c = gray ! idx x y;
              n = gray ! idx x (y - 1);
              s = gray ! idx x (y + 1);
              e = gray ! idx (x + 1) y;
              wv = gray ! idx (x - 1) y;
              lap = 4 * c - (n + s + e + wv)
          in (acc_sum + lap, acc_sumSq + lap * lap, acc_count + 1))"

definition laplacianVariance :: "real list \<Rightarrow> nat \<Rightarrow> nat \<Rightarrow> real" where
  "laplacianVariance gray w h =
     (case fold (lap_step gray w) (List.product [1..<h - 1] [1..<w - 1]) (0, 0, 0) of
        (acc_sum, acc_sumSq, acc_count) \<Rightarrow>
          let mean = acc_sum / real (max 1 acc_count);
              varr = acc_sumSq / real (max 1 acc_count) - mean * mean
          in varr)"

text \<open>
  The options of the analyzer, an object; an option that is not given has its default.
\<close>

record opts =
  minWidth :: "real option"
  minHeight :: "real option"
  maxFileMB :: "real option"
  minLeafCoverage :: "real option"
  minDetail :: "real option"
  maxAspect :: "real option"

definition no_opts :: opts where
  "no_opts = \<lparr> minWidth = None, minHeight = None, maxFileMB = None,
               minLeafCoverage = None, minDetail = None, maxAspect = None \<rparr>"

definition opt_default :: "real option \<Rightarrow> real \<Rightarrow> real" where
  "opt_default v d = (case v of None \<Rightarrow> d | Some x \<Rightarrow> x)"

text \<open>
  The reasons and the symptoms are the strings of the source, one constructor for each:
  \<^item> \<open>NotAPhoto\<close>: ``Please upload a real photo (JPG/PNG/WebP).''
  \<^item> \<open>TooLarge m\<close>: ``Image too large (max \<open>m\<close>MB).''
  \<^item> \<open>CouldNotRead\<close>: ``Could not read image. Try another photo.''
  \<^item> \<open>TooSmall w h\<close>: ``Image too small. Use at least \<open>w\<close> x \<open>h\<close>.''
  \<^item> \<open>WeirdAspect\<close>: ``Weird aspect ratio. Avoid screenshots/collages.''
  \<^item> \<open>LeafNotVisible\<close>: ``Leaf not clearly visible. Move closer and fill the frame with the leaf.''
  \<^item> \<open>TooBlurry\<close>: ``Photo looks too blurry. Hold steady and use better lighting.''
  \<^item> \<open>LooksLikeGraphic\<close>: ``Photo looks like a screenshot/graphic. Upload a real leaf photo.''
  \<^item> \<open>Yellowing\<close>: ``Yellowing (chlorosis)''; \<open>Browning\<close>: ``Browning / necrosis'';
    \<open>EdgeBurn\<close>: ``Edge burn''; \<open>Spots\<close>: ``Spots / lesions'';
    \<open>MostlyHealthy\<close>: ``Mostly healthy green''.
\<close>

datatype reason =
    NotAPhoto | TooLarge real | CouldNotRead | TooSmall real real | WeirdAspect
  | LeafNotVisible | TooBlurry | LooksLikeGraphic

datatype symptom = Yellowing | Browning | EdgeBurn | Spots | MostlyHealthy

text \<open>The counters of the pixel loop, and the grayscale array it fills.\<close>

record counters =
  leafLike :: nat
  green :: nat
  yellow :: nat
  brown :: nat
  darkSpot :: nat
  satLowCount :: nat
  edgeBrown :: nat
  edgeTotal :: nat
  gray :: "real list"

definition pixel_step :: "nat list \<Rightarrow> nat \<Rightarrow> nat \<Rightarrow> nat \<Rightarrow> nat \<times> nat \<Rightarrow> counters \<Rightarrow> counters" where
  "pixel_step data w h edgeBand yx st =
     (case yx of
        (y, x) \<Rightarrow>
          let i = (y * w + x) * 4;
              r = real (data ! i); g = real (data ! (i + 1)); b = real (data ! (i + 2));
              gr = 0.2126 * r + 0.7152 * g + 0.0722 * b;
              st = st\<lparr> gray := (gray st)[y * w + x := gr] \<rparr>
          in case rgbToHsv r g b of
               (hh, s, v) \<Rightarrow>
                 let st = (if s < 0.08 then st\<lparr> satLowCount := satLowCount st + 1 \<rparr> else st);
                     isLeafLike = ((hh \<ge> 55 \<and> hh \<le> 170) \<and> s > 0.18 \<and> v > 0.12);
                     st = (if isLeafLike then st\<lparr> leafLike := leafLike st + 1 \<rparr> else st);
                     isGreen = ((hh \<ge> 70 \<and> hh \<le> 160) \<and> s > 0.22 \<and> v > 0.14);
                     st = (if isGreen then st\<lparr> green := green st + 1 \<rparr> else st);
                     isYellow = ((hh \<ge> 35 \<and> hh < 70) \<and> s > 0.18 \<and> v > 0.18);
                     st = (if isYellow then st\<lparr> yellow := yellow st + 1 \<rparr> else st);
                     isBrown = (((hh \<ge> 10 \<and> hh < 35) \<or> (hh \<ge> 0 \<and> hh < 10)) \<and> s > 0.16 \<and> v > 0.10);
                     st = (if isBrown then st\<lparr> brown := brown st + 1 \<rparr> else st);
                     isDark = (v < 0.22 \<and> s > 0.12);
                     st = (if isLeafLike \<and> isDark then st\<lparr> darkSpot := darkSpot st + 1 \<rparr> else st);
                     isEdge = (x < edgeBand \<or> y < edgeBand
                               \<or> int x \<ge> int w - int edgeBand \<or> int y \<ge> int h - int edgeBand)
                 in if isEdge
                    then let st = st\<lparr> edgeTotal := edgeTotal st + 1 \<rparr>
                         in if isBrown then st\<lparr> edgeBrown := edgeBrown st + 1 \<rparr> else st
                    else st)"

definition scan_pixels :: "nat list \<Rightarrow> nat \<Rightarrow> nat \<Rightarrow> nat \<Rightarrow> counters" where
  "scan_pixels data w h edgeBand =
     fold (pixel_step data w h edgeBand) (List.product [0..<h] [0..<w])
       \<lparr> leafLike = 0, green = 0, yellow = 0, brown = 0, darkSpot = 0, satLowCount = 0,
         edgeBrown = 0, edgeTotal = 0, gray = replicate (w * h) 0 \<rparr>"

text \<open>\<open>Number(x.toFixed(k))\<close>: \<open>x\<close> rounded to \<open>k\<close> decimals, a tie going away from zero.\<close>

definition toFixed :: "nat \<Rightarrow> real \<Rightarrow> real" where
  "toFixed k x =
     (if x < 0 then - (of_int \<lfloor>- x * 10 ^ k + 1 / 2\<rfloor> / 10 ^ k)
      else of_int \<lfloor>x * 10 ^ k + 1 / 2\<rfloor> / 10 ^ k)"

text \<open>
  The metrics of a result. \<open>aspect\<close> is the quotient \<open>img.width / img.height\<close>, which is
  not finite for a height of \<open>0\<close>; \<open>fileMB\<close> is the number that the string of the source
  spells.
\<close>

record metrics =
  m_w :: nat
  m_h :: nat
  m_aspect :: jsnum
  m_fileMB :: real
  m_leafCoverage :: real
  m_greenRatio :: real
  m_yellowRatio :: real
  m_brownRatio :: real
  m_darkSpotRatio :: real
  m_edgeBurnRatio :: real
  m_satLowRatio :: real
  m_detail :: real

record analysis =
  ok :: bool
  reasons :: "reason list"
  metrics :: "metrics option"
  imageStress :: int
  symptoms :: "symptom list"

text \<open>\<open>a / b\<close> for two sizes, and the tests \<open>aspect > m\<close> and \<open>aspect < 1 / m\<close> on it.\<close>

definition size_ratio :: "nat \<Rightarrow> nat \<Rightarrow> jsnum" where
  "size_ratio a b = (if b = 0 then (if a = 0 then NaN else PosInf) else Fin (real a / real b))"

definition aspect_gt :: "jsnum \<Rightarrow> real \<Rightarrow> bool" where
  "aspect_gt a m = (case a of Fin x \<Rightarrow> x > m | PosInf \<Rightarrow> True | _ \<Rightarrow> False)"

definition aspect_lt_inv :: "jsnum \<Rightarrow> real \<Rightarrow> bool" where
  "aspect_lt_inv a m =
     (case a of
        Fin x \<Rightarrow> if m = 0 then True else x < 1 / m
      | NegInf \<Rightarrow> True
      | _ \<Rightarrow> False)"

text \<open>
  \<open>analyzeLeafPhoto(file, opts)\<close>. The \<open>catch\<close> of the failed decode returns at once, with
  a reason list of its own. After it \<open>file\<close> is an object, since the decode succeeded.
\<close>

definition analyzeLeafPhoto :: "jsfile option \<Rightarrow> opts \<Rightarrow> analysis" where
  "analyzeLeafPhoto file opts =
     (let minWidth = opt_default (minWidth opts) 480;
          minHeight = opt_default (minHeight opts) 480;
          maxFileMB = opt_default (maxFileMB opts) 8;
          minLeafCoverage = opt_default (minLeafCoverage opts) 0.18;
          minDetail = opt_default (minDetail opts) 35;
          maxAspect = opt_default (maxAspect opts) 2.3;
          reasons = [];
          reasons = (if \<not> (case file of None \<Rightarrow> False | Some f \<Rightarrow> startsWith (f_type f) ''image/'')
                     then reasons @ [NotAPhoto] else reasons);
          reasons = (if (case file of None \<Rightarrow> False
                                   | Some f \<Rightarrow> real (f_size f) > maxFileMB * 1024 * 1024)
                     then reasons @ [TooLarge maxFileMB] else reasons)
      in case loadImageFromFile file of
           None \<Rightarrow> \<lparr> ok = False, reasons = [CouldNotRead], metrics = None,
                     imageStress = 50, symptoms = [] \<rparr>
         | Some img \<Rightarrow>
           let reasons = (if real (img_width img) < minWidth \<or> real (img_height img) < minHeight
                          then reasons @ [TooSmall minWidth minHeight] else reasons);
               aspect = size_ratio (img_width img) (img_height img);
               reasons = (if aspect_gt aspect maxAspect \<or> aspect_lt_inv aspect maxAspect
                          then reasons @ [WeirdAspect] else reasons)
           in case getImageData img 360 of
                (data, w, h) \<Rightarrow>
                  let edgeBand = nat (max 2 (Math_round (real (min w h) * 0.10)));
                      total = w * h;
                      st = scan_pixels data w h edgeBand;
                      leafCoverage = real (leafLike st) / real (max 1 total);
                      greenRatio = real (green st) / real (max 1 total);
                      yellowRatio = real (yellow st) / real (max 1 total);
                      brownRatio = real (brown st) / real (max 1 total);
                      darkSpotRatio = real (darkSpot st) / real (max 1 total);
                      edgeBurnRatio = real (edgeBrown st) / real (max 1 (edgeTotal st));
                      satLowRatio = real (satLowCount st) / real (max 1 total);
                      detail = laplacianVariance (gray st) w h;
                      reasons = (if leafCoverage < minLeafCoverage
                                 then reasons @ [LeafNotVisible] else reasons);
                      reasons = (if detail < minDetail then reasons @ [TooBlurry] else reasons);
                      reasons = (if satLowRatio > 0.65 then reasons @ [LooksLikeGraphic] else reasons);
                      ok = (length reasons = 0);
                      stress01 = 1.8 * yellowRatio + 2.2 * brownRatio + 1.6 * darkSpotRatio
                                 + 1.8 * edgeBurnRatio - 0.8 * greenRatio;
                      stress01 = vclamp stress01 0 1;
                      stress01 = (if detail < minDetail * 1.6 then vclamp (stress01 + 0.08) 0 1
                                  else stress01);
                      imageStress = Math_round (stress01 * 100);
                      symptoms = [];
                      symptoms = (if yellowRatio > 0.08 then symptoms @ [Yellowing] else symptoms);
                      symptoms = (if brownRatio > 0.05 then symptoms @ [Browning] else symptoms);
                      symptoms = (if edgeBurnRatio > 0.08 then symptoms @ [EdgeBurn] else symptoms);
                      symptoms = (if darkSpotRatio > 0.03 then symptoms @ [Spots] else symptoms);
                      symptoms = (if greenRatio > 0.20 \<and> length symptoms = 0
                                  then symptoms @ [MostlyHealthy] else symptoms)
                  in \<lparr> ok = ok,
                       reasons = reasons,
                       metrics = Some
                         \<lparr> m_w = w, m_h = h,
                           m_aspect = aspect,
                           m_fileMB = (case file of
                                         Some f \<Rightarrow> toFixed 2 (real (f_size f) / (1024 * 1024))
                                       | None \<Rightarrow> 0),
                           m_leafCoverage = toFixed 3 leafCoverage,
                           m_greenRatio = toFixed 3 greenRatio,
                           m_yellowRatio = toFixed 3 yellowRatio,
                           m_brownRatio = toFixed 3 brownRatio,
                           m_darkSpotRatio = toFixed 3 darkSpotRatio,
                           m_edgeBurnRatio = toFixed 3 edgeBurnRatio,
                           m_satLowRatio = toFixed 3 satLowRatio,
                           m_detail = toFixed 1 detail \<rparr>,
                       imageStress = imageStress,
                       symptoms = symptoms \<rparr>)"

text \<open>
  The pixel buffer \<open>data\<close> of a \<open>w \<times> h\<close> canvas is uniformly gray at level \<open>c\<close> when the
  red, green and blue bytes of every pixel are \<open>c\<close>.
\<close>

definition uniform :: "nat list \<Rightarrow> nat \<Rightarrow> nat \<Rightarrow> nat \<Rightarrow> bool" where
  "uniform data w h c \<longleftrightarrow>
     (\<forall>i < w * h. data ! (4 * i) = c \<and> data ! (4 * i + 1) = c \<and> data ! (4 * i + 2) = c)"

text \<open>
  Two example files: a photo of 480 by 480 pixels that every canvas draws as opaque
  mid-gray, and a file that is too large, is not an image and does not decode.
\<close>

definition gray_image :: image where
  "gray_image =
     \<lparr> img_width = 480, img_height = 480,
       img_draw = (\<lambda>w h. concat (replicate (w * h) [128, 128, 128, 255])) \<rparr>"

definition gray_file :: jsfile where
  "gray_file = \<lparr> f_type = ''image/png'', f_size = 200000, f_decoded = Some gray_image \<rparr>"

definition broken_file :: jsfile where
  "broken_file = \<lparr> f_type = ''application/pdf'', f_size = 9000000, f_decoded = None \<rparr>"

section \<open>Properties of the risk scoring engine\<close>

subsection \<open>Clamping and rounding\<close>

lemma clamp_bounds: "lo \<le> hi \<Longrightarrow> lo \<le> clamp n lo hi \<and> clamp n lo hi \<le> hi"
  by (cases n) simp_all

lemma clamp_Fin_id: "lo \<le> x \<Longrightarrow> x \<le> hi \<Longrightarrow> clamp (Fin x) lo hi = x"
  by simp

lemma clamp_idem: "clamp (Fin (clamp n 0 1)) 0 1 = clamp n 0 1"
  using clamp_bounds[of 0 1 n] by (simp del: clamp.simps add: clamp_Fin_id)


lemma Math_round_bounds:
  assumes "0 \<le> c" "c \<le> 1"
  shows "0 \<le> Math_round (c * 100)" "Math_round (c * 100) \<le> 100"
    "real_of_int (Math_round (c * 100)) - 1 / 2 \<le> c * 100"
proof -
  have "0 \<le> c * 100 + 1 / 2" using assms by simp
  then show "0 \<le> Math_round (c * 100)" unfolding Math_round_def by simp
  have "c * 100 + 1 / 2 < 101" using assms by simp
  then have "\<lfloor>c * 100 + 1 / 2\<rfloor> < 101" by (simp add: floor_less_iff)
  then show "Math_round (c * 100) \<le> 100" unfolding Math_round_def by simp
  have "real_of_int \<lfloor>c * 100 + 1 / 2\<rfloor> \<le> c * 100 + 1 / 2"
    by (rule of_int_floor_le)
  then show "real_of_int (Math_round (c * 100)) - 1 / 2 \<le> c * 100"
    unfolding Math_round_def by linarith
qed

lemma pct_bounds: "0 \<le> pct x \<and> pct x \<le> 100"
  unfolding pct_def using Math_round_bounds(1,2)[of "clamp (Fin x) 0 1"] clamp_bounds[of 0 1 "Fin x"]
  by (simp del: clamp.simps)

lemma pct_lower: "real_of_int (pct x) - 1 / 2 \<le> clamp (Fin x) 0 1 * 100"
  unfolding pct_def using Math_round_bounds(3)[of "clamp (Fin x) 0 1"] clamp_bounds[of 0 1 "Fin x"]
  by (simp del: clamp.simps)

subsection \<open>Property access and the operators on values\<close>

lemma js_or_Obj: "js_or (Obj kvs) b = Obj kvs"
  by (simp add: js_or_def)

lemma nc_simps:
  "nc Undefined b = b" "nc Null b = b" "nc (Num n) b = Num n" "nc (Bool t) b = Bool t"
  "nc (Obj kvs) b = Obj kvs"
  by (simp_all add: nc_def nullish_def)

subsection \<open>The decay score\<close>

lemma exp_decay_60_3: "exp (- (ln 2 * 60) / 3) = 1 / (2 ^ 20 :: real)"
proof -
  have "- (ln 2 * 60) / 3 = - (20 * ln (2::real))" by simp
  then have "exp (- (ln 2 * 60) / 3) = exp (- (20 * ln (2::real)))" by simp
  also have "\<dots> = 1 / exp (of_nat 20 * ln (2::real))" by (simp add: exp_minus field_simps)
  also have "\<dots> = 1 / (exp (ln 2)) ^ 20" by (simp only: exp_of_nat_mult)
  finally show ?thesis by simp
qed

lemma decay_60_3: "decayScore (Num (Fin 60)) (Num (Fin 3)) = 1 / 2 ^ 20"
proof -
  have "decayScore (Num (Fin 60)) (Num (Fin 3)) = clamp (Fin (exp (- (ln 2 * 60) / 3))) 0 1"
    by (simp add: decayScore_def Let_def del: clamp.simps)
  also have "\<dots> = clamp (Fin (1 / 2 ^ 20)) 0 1" by (simp only: exp_decay_60_3)
  also have "\<dots> = 1 / 2 ^ 20" by (rule clamp_Fin_id) simp_all
  finally show ?thesis .
qed

subsection \<open>The dose score\<close>





lemma dose_0_10: "doseScore (Num (Fin 0)) (Num (Fin 10)) = 0"
  by (simp add: doseScore_def)




section \<open>The decay score in the arithmetic of doubles: properties\<close>

subsection \<open>Rounding to the nearest double\<close>


























subsection \<open>The decay score at the smallest positive double\<close>







subsection \<open>The decay score of the engine\<close>




subsection \<open>The parts of calculateRisk\<close>

lemma calculateRisk_fuse:
  "calculateRisk payload0 =
     (let payload = (if payload0 = Undefined then Obj [] else payload0)
      in if payload = Null then Inl TypeError else Inr (score_payload payload))"
  unfolding calculateRisk_def score_payload_def fuse_scores_def sanity_rules_def risk_tips_def Let_def
  by (rule refl)

lemma calculateRisk_Inr:
  assumes "calculateRisk p = Inr r"
  shows "r = score_payload (if p = Undefined then Obj [] else p)"
  using assms unfolding calculateRisk_fuse Let_def by (simp split: if_splits)

lemma calculateRisk_Obj: "calculateRisk (Obj kvs) = Inr (score_payload (Obj kvs))"
  unfolding calculateRisk_fuse Let_def by simp

lemma score_payload_fuse:
  "\<exists>ad rd ds w st cf sDose sDecay sPh sMoist sWeather ai.
     score_payload p = fuse_scores ad rd ds w st cf sDose sDecay sPh sMoist sWeather ai"
  unfolding score_payload_def Let_def by blast

lemma fuse_scores_sel:
  "riskPercent (fuse_scores ad rd ds w st cf sDose sDecay sPh sMoist sWeather ai) =
     sanity_rules (clampNum ds 0) ai sDose sDecay st cf
       (pct (clamp (Fin (clamp (Fin (0.22 * sDose + 0.28 * sDecay + 0.18 * sWeather
                              + 0.14 * sMoist + 0.10 * sPh)) 0 1 + ai)) 0 1))"
  "b_doseScore (breakdown (fuse_scores ad rd ds w st cf sDose sDecay sPh sMoist sWeather ai)) = sDose"
  "b_decayScore (breakdown (fuse_scores ad rd ds w st cf sDose sDecay sPh sMoist sWeather ai)) = sDecay"
  "b_aiContribution (breakdown (fuse_scores ad rd ds w st cf sDose sDecay sPh sMoist sWeather ai)) = ai"
  "b_baseScore (breakdown (fuse_scores ad rd ds w st cf sDose sDecay sPh sMoist sWeather ai)) =
     clamp (Fin (0.22 * sDose + 0.28 * sDecay + 0.18 * sWeather + 0.14 * sMoist + 0.10 * sPh)) 0 1"
  "b_totalScore (breakdown (fuse_scores ad rd ds w st cf sDose sDecay sPh sMoist sWeather ai)) =
     clamp (Fin (of_int (riskPercent (fuse_scores ad rd ds w st cf sDose sDecay sPh sMoist sWeather ai)) / 100)) 0 1"
  unfolding fuse_scores_def Let_def
  by (simp_all only: risk.select_convs breakdown.select_convs)

subsection \<open>The sanity rules\<close>

text \<open>Each rule can only lower the percentage, none makes it negative, and the second caps it.\<close>

lemma sanity_rules_props:
  assumes rp: "0 \<le> rp"
  shows "sanity_rules d ai sDose sDecay st cf rp \<le> rp"
    and "0 \<le> sanity_rules d ai sDose sDecay st cf rp"
    and "sDose < 0.2 \<Longrightarrow> sDecay < 0.2 \<Longrightarrow> sanity_rules d ai sDose sDecay st cf rp \<le> 45"
proof -
  define r1 where "r1 = (if d \<ge> 20 \<and> rp > 60 \<and> ai > 0.15 then min rp 55 else rp)"
  define r2 where "r2 = (if sDose < 0.2 \<and> sDecay < 0.2 then min r1 45 else r1)"
  have 1: "r1 \<le> rp" "0 \<le> r1" using rp by (simp_all add: r1_def)
  have 2: "r2 \<le> r1" "0 \<le> r2" using 1 by (simp_all add: r2_def)
  have eq: "sanity_rules d ai sDose sDecay st cf rp =
          (if clampNum st 0 > 80 \<and> clampNum cf 0 < 40 then max (r2 - 10) 0 else r2)"
    unfolding sanity_rules_def Let_def r1_def r2_def by (rule refl)
  have 3: "max (r2 - 10) 0 \<le> r2" "0 \<le> max (r2 - 10) 0" using 2 by simp_all
  show "sanity_rules d ai sDose sDecay st cf rp \<le> rp"
    unfolding eq using 1 2 3 by (simp del: clampNum.simps)
  show "0 \<le> sanity_rules d ai sDose sDecay st cf rp"
    unfolding eq using 2 3 by (simp del: clampNum.simps)
  assume "sDose < 0.2" "sDecay < 0.2"
  then have "r2 \<le> 45" by (simp add: r2_def)
  then show "sanity_rules d ai sDose sDecay st cf rp \<le> 45"
    unfolding eq using 3 by (simp del: clampNum.simps)
qed

lemma fuse_scores_total:
  fixes ad rd ds w st cf sDose sDecay sPh sMoist sWeather ai
  defines "r \<equiv> fuse_scores ad rd ds w st cf sDose sDecay sPh sMoist sWeather ai"
  shows "b_totalScore (breakdown r) = of_int (riskPercent r) / 100"
    and "0 \<le> riskPercent r" and "riskPercent r \<le> 100"
    and "riskPercent r \<le> pct (clamp (Fin (b_baseScore (breakdown r) + b_aiContribution (breakdown r))) 0 1)"
    and "riskPercent r < pct (clamp (Fin (b_baseScore (breakdown r) + b_aiContribution (breakdown r))) 0 1)
         \<Longrightarrow> b_totalScore (breakdown r)
               < clamp (Fin (b_baseScore (breakdown r) + b_aiContribution (breakdown r))) 0 1"
proof -
  define t where "t = clamp (Fin (b_baseScore (breakdown r) + b_aiContribution (breakdown r))) 0 1"
  have rp: "riskPercent r = sanity_rules (clampNum ds 0) ai sDose sDecay st cf (pct t)"
    unfolding t_def r_def fuse_scores_sel by (rule refl)
  have p: "0 \<le> pct t" "pct t \<le> 100" using pct_bounds[of t] by simp_all
  show lo: "0 \<le> riskPercent r" unfolding rp by (rule sanity_rules_props(2)[OF p(1)])
  have le: "riskPercent r \<le> pct t" unfolding rp by (rule sanity_rules_props(1)[OF p(1)])
  then show hi: "riskPercent r \<le> 100" using p(2) by simp
  show "riskPercent r \<le> pct (clamp (Fin (b_baseScore (breakdown r) + b_aiContribution (breakdown r))) 0 1)"
    using le unfolding t_def .
  have "b_totalScore (breakdown r) = clamp (Fin (of_int (riskPercent r) / 100)) 0 1"
    unfolding r_def fuse_scores_sel by (rule refl)
  also have "\<dots> = of_int (riskPercent r) / 100"
    using lo hi by (intro clamp_Fin_id) simp_all
  finally show tot: "b_totalScore (breakdown r) = of_int (riskPercent r) / 100" .
  assume "riskPercent r < pct (clamp (Fin (b_baseScore (breakdown r) + b_aiContribution (breakdown r))) 0 1)"
  then have "riskPercent r < pct t" unfolding t_def .
  then have "real_of_int (riskPercent r) \<le> real_of_int (pct t) - 1" by linarith
  moreover have "real_of_int (pct t) - 1 / 2 \<le> t * 100"
    using pct_lower[of t] unfolding t_def clamp_idem .
  ultimately have "real_of_int (riskPercent r) / 100 < t" by linarith
  then show "b_totalScore (breakdown r)
               < clamp (Fin (b_baseScore (breakdown r) + b_aiContribution (breakdown r))) 0 1"
    unfolding tot t_def .
qed

lemma fuse_scores_cap45:
  fixes ad rd ds w st cf sDose sDecay sPh sMoist sWeather ai
  defines "r \<equiv> fuse_scores ad rd ds w st cf sDose sDecay sPh sMoist sWeather ai"
  assumes "b_doseScore (breakdown r) < 0.2" "b_decayScore (breakdown r) < 0.2"
  shows "riskPercent r \<le> 45"
proof -
  have "sDose < 0.2" "sDecay < 0.2" using assms(2,3) unfolding r_def fuse_scores_sel .
  then show ?thesis unfolding r_def fuse_scores_sel(1)
    using pct_bounds sanity_rules_props(3) by blast
qed

subsection \<open>The AI contribution\<close>

lemma computeAiContribution_conf:
  "computeAiContribution sv cv dv =
     (if nullish sv then 0
      else min (ai_softened sv * ai_conf cv * ai_timeFactor dv * 0.25) 0.25)"
  unfolding computeAiContribution_def ai_softened_def ai_conf_def ai_timeFactor_def Let_def
  by (rule refl)

lemma ai_conf_bounds: "0.3 \<le> ai_conf cv \<and> ai_conf cv \<le> 1"
  unfolding ai_conf_def Let_def by (rule clamp_bounds) simp

lemma ai_timeFactor_bounds: "0 < ai_timeFactor dv \<and> ai_timeFactor dv \<le> 1"
  unfolding ai_timeFactor_def Let_def by (simp del: clampNum.simps)

lemma ai_softened_bounds: "0 \<le> ai_softened sv \<and> ai_softened sv \<le> 1"
proof -
  define s where "s = clamp (js_div sv 100) 0 1"
  have s: "0 \<le> s" "s \<le> 1" using clamp_bounds[of 0 1 "js_div sv 100"] by (simp_all add: s_def)
  have "ai_softened sv = (if s < 0.4 then s * 0.7 else if s < 0.7 then s * 0.85 else s * 1.0)"
    unfolding ai_softened_def Let_def s_def by (rule refl)
  then show ?thesis using s by simp
qed

lemma computeAiContribution_bounds:
  "0 \<le> computeAiContribution sv cv dv \<and> computeAiContribution sv cv dv \<le> 0.25"
proof -
  have a: "0 \<le> ai_softened sv" using ai_softened_bounds by blast
  have b: "0 \<le> ai_conf cv" using ai_conf_bounds[of cv] by simp
  have c: "0 \<le> ai_timeFactor dv" using ai_timeFactor_bounds[of dv] by simp
  have "0 \<le> ai_softened sv * ai_conf cv * ai_timeFactor dv" using a b c by simp
  then have "0 \<le> ai_softened sv * ai_conf cv * ai_timeFactor dv * 0.25" by simp
  then have "0 \<le> min (ai_softened sv * ai_conf cv * ai_timeFactor dv * 0.25) 0.25"
    "min (ai_softened sv * ai_conf cv * ai_timeFactor dv * 0.25) 0.25 \<le> 0.25"
    by (simp_all only: min_def split: if_splits, simp_all)
  then show ?thesis unfolding computeAiContribution_conf by (cases "nullish sv") simp_all
qed

lemma computeAiContribution_spec:
  "computeAiContribution (Num (Fin s)) (Num (Fin c)) (Num (Fin d)) = spec_aiContribution s c d"
proof -
  have tf: "ai_timeFactor (Num (Fin d)) = (if d < 7 then 1.0 else if d < 14 then 0.65 else 0.4)"
    unfolding ai_timeFactor_def Let_def by simp
  have cf: "ai_conf (Num (Fin c)) = min (max (c / 100) 0.3) 1"
    unfolding ai_conf_def Let_def by simp
  have st: "ai_softened (Num (Fin s)) =
      (if min (max (s / 100) 0) 1 < 0.4 then min (max (s / 100) 0) 1 * 0.7
       else if min (max (s / 100) 0) 1 < 0.7 then min (max (s / 100) 0) 1 * 0.85
       else min (max (s / 100) 0) 1 * 1.0)"
    unfolding ai_softened_def Let_def by (simp only: js_div.simps Number.simps jsnum.case clamp.simps)
  have n: "\<not> nullish (Num (Fin s))" by (simp add: nullish_def)
  show ?thesis
    unfolding computeAiContribution_conf spec_aiContribution_def Let_def
    by (simp only: n if_False tf cf st)
qed

text \<open>
  Claim C3. The AI contribution lies in \<open>[0, 0.25]\<close> for every stress score, confidence
  and number of days (so for those in \<open>[0, 100]\<close>); it is \<open>0\<close> when the stress score is absent
  (\<open>undefined\<close> or \<open>null\<close>); and for a numeric stress score, confidence and number of days
  it is the value the specification gives: the softened stress times the confidence
  factor (floor \<open>0.3\<close>) times the time factor (\<open>1\<close>, \<open>0.65\<close>, \<open>0.4\<close>) times \<open>0.25\<close>, capped at
  \<open>0.25\<close>.
\<close>

theorem aiContribution_bounded:
  "0 \<le> computeAiContribution sv cv dv \<and> computeAiContribution sv cv dv \<le> 0.25
   \<and> (nullish sv' \<longrightarrow> computeAiContribution sv' cv' dv' = 0)
   \<and> computeAiContribution (Num (Fin s)) (Num (Fin c)) (Num (Fin d)) = spec_aiContribution s c d"
proof (intro conjI impI)
  show "0 \<le> computeAiContribution sv cv dv" "computeAiContribution sv cv dv \<le> 0.25"
    using computeAiContribution_bounds[of sv cv dv] by simp_all
  show "computeAiContribution (Num (Fin s)) (Num (Fin c)) (Num (Fin d)) = spec_aiContribution s c d"
    by (rule computeAiContribution_spec)
next
  assume "nullish sv'"
  then show "computeAiContribution sv' cv' dv' = 0"
    by (simp only: computeAiContribution_conf if_True)
qed

theorem aiContribution_bounded_witness:
  "0 \<le> computeAiContribution (Num (Fin 90)) (Num (Fin 80)) (Num (Fin 3))
   \<and> computeAiContribution (Num (Fin 90)) (Num (Fin 80)) (Num (Fin 3)) \<le> 0.25
   \<and> nullish Undefined \<and> computeAiContribution Undefined (Num (Fin 80)) (Num (Fin 3)) = 0
   \<and> computeAiContribution (Num (Fin 90)) (Num (Fin 80)) (Num (Fin 3)) = 0.18"
proof -
  have n: "nullish Undefined" by (simp add: nullish_def)
  have v: "spec_aiContribution 90 80 3 = 0.18" by (simp add: spec_aiContribution_def)
  show ?thesis
    using aiContribution_bounded[of "Num (Fin 90)" "Num (Fin 80)" "Num (Fin 3)" Undefined
            "Num (Fin 80)" "Num (Fin 3)" 90 80 3] n v
    by simp
qed

subsection \<open>The default confidence\<close>

lemma get_ai_conf50:
  assumes "nullish (get (Obj aikvs) ''confidence'')"
  shows "nc (get (Obj ((''confidence'', Num (Fin 50)) # aikvs)) ''confidence'') (Num (Fin 50))
         = nc (get (Obj aikvs) ''confidence'') (Num (Fin 50))"
    and "k \<noteq> ''confidence'' \<Longrightarrow> get (Obj ((''confidence'', Num (Fin 50)) # aikvs)) k = get (Obj aikvs) k"
  using assms by (simp_all add: nc_def nullish_def)

lemma get_skip_ai:
  "k \<noteq> ''ai'' \<Longrightarrow> get (Obj ((''ai'', v) # kvs)) k = get (Obj kvs) k"
  "get (Obj ((''ai'', v) # kvs)) ''ai'' = v"
  by simp_all

lemma js_or_payload_fields:
  assumes "k \<noteq> ''ai''"
  shows "get (js_or (js_or (get (Obj kvs) ''inputs'') (Obj ((''ai'', v) # kvs))) (Obj [])) k
       = get (js_or (js_or (get (Obj kvs) ''inputs'') (Obj ((''ai'', v') # kvs))) (Obj [])) k"
  using assms by (simp add: js_or_def)

lemma score_payload_conf50:
  assumes "nullish (get (Obj aikvs) ''confidence'')"
  shows "score_payload (Obj ((''ai'', Obj aikvs) # kvs))
       = score_payload (Obj ((''ai'', Obj ((''confidence'', Num (Fin 50)) # aikvs)) # kvs))"
proof -
  have ne: "''inputs'' \<noteq> ''ai''" "''weather'' \<noteq> ''ai''" "''appliedDose'' \<noteq> ''ai''" "''dose'' \<noteq> ''ai''"
    "''userDose'' \<noteq> ''ai''" "''recommendedDose'' \<noteq> ''ai''" "''recDose'' \<noteq> ''ai''"
    "''recommended'' \<noteq> ''ai''" "''daysSinceSpray'' \<noteq> ''ai''" "''days'' \<noteq> ''ai''"
    "''sprayDays'' \<noteq> ''ai''" "''halfLifeDays'' \<noteq> ''ai''" "''halfLife'' \<noteq> ''ai''"
    "''halflife'' \<noteq> ''ai''" "''leafPh'' \<noteq> ''ai''" "''leafPH'' \<noteq> ''ai''" "''soilPh'' \<noteq> ''ai''"
    "''soilPH'' \<noteq> ''ai''" "''moisture'' \<noteq> ''ai''" "''imageStress'' \<noteq> ''ai''"
    "''stressScore'' \<noteq> ''confidence''" "''imageStress'' \<noteq> ''confidence''"
    by simp_all
  note f = js_or_payload_fields[where v = "Obj aikvs"
             and v' = "Obj ((''confidence'', Num (Fin 50)) # aikvs)" and kvs = kvs]
  show ?thesis
    unfolding score_payload_def Let_def
    by (simp only: get_skip_ai ne js_or_Obj get_ai_conf50[OF assms] f not_False_eq_True)
qed

lemma ai_of_groups:
  "b_aiContribution (breakdown (score_payload (payload_groups ikvs w aikvs))) =
     computeAiContribution (group_stress ikvs aikvs)
       (nc (get (Obj aikvs) ''confidence'') (Num (Fin 50))) (group_days ikvs)"
  unfolding score_payload_def Let_def fuse_scores_sel payload_groups_def group_stress_def
    group_days_def
  by (simp add: js_or_Obj)

lemma nc_not_Undefined: "nc c (Num (Fin 50)) \<noteq> Undefined"
  by (simp add: nc_def nullish_def)

lemma ai_conf_nc:
  "ai_conf (nc c (Num (Fin 50))) = clamp (js_div (nc c (Num (Fin 50))) 100) 0.3 1"
  unfolding ai_conf_def Let_def by (simp only: nc_not_Undefined if_False)

lemma ai_conf_50: "ai_conf (Num (Fin 50)) = 0.5"
  by (simp add: ai_conf_def)

lemma ai_of_groups_factor:
  "b_aiContribution (breakdown (score_payload (payload_groups ikvs w aikvs))) =
     (if nullish (group_stress ikvs aikvs) then 0
      else min (ai_softened (group_stress ikvs aikvs)
                * clamp (js_div (nc (get (Obj aikvs) ''confidence'') (Num (Fin 50))) 100) 0.3 1
                * ai_timeFactor (group_days ikvs) * 0.25) 0.25)"
  unfolding ai_of_groups computeAiContribution_conf ai_conf_nc by (rule refl)

lemma ai_of_groups_default:
  assumes "nullish (get (Obj aikvs) ''confidence'')"
  shows "b_aiContribution (breakdown (score_payload (payload_groups ikvs w aikvs))) =
     (if nullish (group_stress ikvs aikvs) then 0
      else min (ai_softened (group_stress ikvs aikvs) * 0.5
                * ai_timeFactor (group_days ikvs) * 0.25) 0.25)"
proof -
  have "nc (get (Obj aikvs) ''confidence'') (Num (Fin 50)) = Num (Fin 50)"
    using assms by (simp add: nc_def)
  then show ?thesis
    unfolding ai_of_groups computeAiContribution_conf by (simp only: ai_conf_50)
qed

lemma ai_of_groups_numeric:
  "b_aiContribution (breakdown (score_payload
      (payload_groups [(''daysSinceSpray'', Num (Fin d))] w [(''stressScore'', Num (Fin s))])))
   = spec_aiContribution s 50 d"
proof -
  have c: "nc (get (Obj [(''stressScore'', Num (Fin s))]) ''confidence'') (Num (Fin 50)) = Num (Fin 50)"
    by (simp add: nc_def nullish_def)
  have st: "group_stress [(''daysSinceSpray'', Num (Fin d))] [(''stressScore'', Num (Fin s))] = Num (Fin s)"
    by (simp add: group_stress_def nc_simps)
  have dy: "group_days [(''daysSinceSpray'', Num (Fin d))] = Num (Fin d)"
    by (simp add: group_days_def nc_simps)
  show ?thesis
    unfolding ai_of_groups by (simp only: c st dy computeAiContribution_spec)
qed

lemma calculateRisk_groups:
  "calculateRisk (payload_groups ikvs w aikvs) = Inr (score_payload (payload_groups ikvs w aikvs))"
  unfolding payload_groups_def by (rule calculateRisk_Obj)

text \<open>
  Claim C9. For a payload \<open>{ inputs, weather, ai }\<close> whose \<open>ai\<close> group has no confidence (the
  field is absent or \<open>null\<close>), the AI contribution of the result is computed with the
  confidence factor \<open>0.5\<close>, the factor of the default confidence \<open>50\<close>: it is the softened
  stress times \<open>0.5\<close> times the time factor times \<open>0.25\<close>, capped at \<open>0.25\<close>, and for a
  numeric stress score and number of days it is the specification's value at confidence
  \<open>50\<close>. For every payload the AI contribution of the result is computed with the factor
  \<open>clamp (confidence / 100, 0.3, 1)\<close> of the confidence read (\<open>50\<close> when it is absent), and
  this factor lies in \<open>[0.3, 1]\<close> whatever the confidence is. A payload without confidence
  is scored as the same payload with \<open>ai.confidence = 50\<close>.
\<close>

theorem confidence_default_and_floor:
  "(nullish (get (Obj aikvs) ''confidence'') \<longrightarrow>
      (\<exists>r. calculateRisk (payload_groups ikvs w aikvs) = Inr r
           \<and> b_aiContribution (breakdown r) =
               (if nullish (group_stress ikvs aikvs) then 0
                else min (ai_softened (group_stress ikvs aikvs) * 0.5
                          * ai_timeFactor (group_days ikvs) * 0.25) 0.25)))
   \<and> (\<exists>r. calculateRisk
              (payload_groups [(''daysSinceSpray'', Num (Fin d))] w0 [(''stressScore'', Num (Fin s))])
            = Inr r
          \<and> b_aiContribution (breakdown r) = spec_aiContribution s 50 d)
   \<and> (\<exists>r. calculateRisk (payload_groups ikvs1 w1 aikvs1) = Inr r
          \<and> b_aiContribution (breakdown r) =
               (if nullish (group_stress ikvs1 aikvs1) then 0
                else min (ai_softened (group_stress ikvs1 aikvs1)
                          * clamp (js_div (nc (get (Obj aikvs1) ''confidence'') (Num (Fin 50))) 100) 0.3 1
                          * ai_timeFactor (group_days ikvs1) * 0.25) 0.25))
   \<and> 0.3 \<le> clamp (js_div cv 100) 0.3 1 \<and> clamp (js_div cv 100) 0.3 1 \<le> 1
   \<and> clamp (js_div (Num (Fin 50)) 100) 0.3 1 = 0.5
   \<and> (nullish (get (Obj aikvs2) ''confidence'') \<longrightarrow>
      calculateRisk (Obj ((''ai'', Obj aikvs2) # kvs))
      = calculateRisk (Obj ((''ai'', Obj ((''confidence'', Num (Fin 50)) # aikvs2)) # kvs)))"
proof (intro conjI impI)
  assume "nullish (get (Obj aikvs) ''confidence'')"
  then show "\<exists>r. calculateRisk (payload_groups ikvs w aikvs) = Inr r
           \<and> b_aiContribution (breakdown r) =
               (if nullish (group_stress ikvs aikvs) then 0
                else min (ai_softened (group_stress ikvs aikvs) * 0.5
                          * ai_timeFactor (group_days ikvs) * 0.25) 0.25)"
    using calculateRisk_groups ai_of_groups_default by blast
next
  show "\<exists>r. calculateRisk
              (payload_groups [(''daysSinceSpray'', Num (Fin d))] w0 [(''stressScore'', Num (Fin s))])
            = Inr r
          \<and> b_aiContribution (breakdown r) = spec_aiContribution s 50 d"
    using calculateRisk_groups ai_of_groups_numeric by blast
  show "\<exists>r. calculateRisk (payload_groups ikvs1 w1 aikvs1) = Inr r
          \<and> b_aiContribution (breakdown r) =
               (if nullish (group_stress ikvs1 aikvs1) then 0
                else min (ai_softened (group_stress ikvs1 aikvs1)
                          * clamp (js_div (nc (get (Obj aikvs1) ''confidence'') (Num (Fin 50))) 100) 0.3 1
                          * ai_timeFactor (group_days ikvs1) * 0.25) 0.25)"
    using calculateRisk_groups ai_of_groups_factor by blast
  show "0.3 \<le> clamp (js_div cv 100) 0.3 1" "clamp (js_div cv 100) 0.3 1 \<le> 1"
    using clamp_bounds[of "0.3" 1 "js_div cv 100"] by simp_all
  show "clamp (js_div (Num (Fin 50)) 100) 0.3 1 = 0.5" by simp
next
  assume "nullish (get (Obj aikvs2) ''confidence'')"
  then have "score_payload (Obj ((''ai'', Obj aikvs2) # kvs))
       = score_payload (Obj ((''ai'', Obj ((''confidence'', Num (Fin 50)) # aikvs2)) # kvs))"
    by (rule score_payload_conf50)
  then show "calculateRisk (Obj ((''ai'', Obj aikvs2) # kvs))
      = calculateRisk (Obj ((''ai'', Obj ((''confidence'', Num (Fin 50)) # aikvs2)) # kvs))"
    unfolding calculateRisk_fuse Let_def by simp
qed

theorem confidence_default_and_floor_witness:
  "nullish (get (Obj [(''stressScore'', Num (Fin 90))]) ''confidence'')
   \<and> (\<exists>r. calculateRisk (payload_groups [(''daysSinceSpray'', Num (Fin 3))] Undefined
                             [(''stressScore'', Num (Fin 90))]) = Inr r
          \<and> b_aiContribution (breakdown r) = 0.1125)
   \<and> 0.3 \<le> clamp (js_div (Num (Fin (- 20))) 100) 0.3 1
   \<and> clamp (js_div (Bool True) 100) 0.3 1 \<le> 1
   \<and> calculateRisk (Obj [(''ai'', Obj [(''stressScore'', Num (Fin 90))]),
                         (''recommendedDose'', Num (Fin 2))])
     = calculateRisk (Obj [(''ai'', Obj [(''confidence'', Num (Fin 50)), (''stressScore'', Num (Fin 90))]),
                           (''recommendedDose'', Num (Fin 2))])"
proof -
  have n: "nullish (get (Obj [(''stressScore'', Num (Fin 90))]) ''confidence'')"
    by (simp add: nullish_def)
  have v: "spec_aiContribution 90 50 3 = 0.1125" by (simp add: spec_aiContribution_def)
  note t = confidence_default_and_floor[of "[(''stressScore'', Num (Fin 90))]"
            "[(''daysSinceSpray'', Num (Fin 3))]" Undefined 3 Undefined 90
            "[]" Undefined "[]" "Num (Fin (- 20))"
            "[(''stressScore'', Num (Fin 90))]" "[(''recommendedDose'', Num (Fin 2))]"]
  have a: "\<exists>r. calculateRisk (payload_groups [(''daysSinceSpray'', Num (Fin 3))] Undefined
                             [(''stressScore'', Num (Fin 90))]) = Inr r
          \<and> b_aiContribution (breakdown r) = 0.1125"
    using t v by simp
  have b: "0.3 \<le> clamp (js_div (Num (Fin (- 20))) 100) 0.3 1" using t by blast
  have c: "clamp (js_div (Bool True) 100) 0.3 1 \<le> 1"
    using confidence_default_and_floor[of "[]" "[]" Undefined 0 Undefined 0 "[]" Undefined "[]"
            "Bool True" "[]" "[]"] by blast
  have e: "calculateRisk (Obj [(''ai'', Obj [(''stressScore'', Num (Fin 90))]),
                         (''recommendedDose'', Num (Fin 2))])
     = calculateRisk (Obj [(''ai'', Obj [(''confidence'', Num (Fin 50)), (''stressScore'', Num (Fin 90))]),
                           (''recommendedDose'', Num (Fin 2))])"
    using t n by blast
  show ?thesis using n a b c e by blast
qed

subsection \<open>The example payloads\<close>

lemma fresh_dose: "doseScore (Num (Fin 1)) (Num (Fin 1)) = 0.70"
  by (simp add: doseScore_def)

lemma fresh_decay: "decayScore (Num (Fin 0)) (Num (Fin 5)) = 1"
  by (simp add: decayScore_def)

lemma absent_ph: "phScore Undefined Undefined = 0.25"
  by (simp add: phScore_def)

lemma absent_moisture: "moistureScore Undefined = 0.35"
  by (simp add: moistureScore_def)

lemma absent_weather: "weatherScore (Obj []) = 0.35"
  unfolding weatherScore_def Let_def
  apply (simp only: get.simps map_of.simps option.case nc_def nullish_def jsval.distinct
           if_False if_True simp_thms)
  apply (simp only: clampNumNaN.simps Number.simps jsnum.case option.case)
  apply simp
  done

lemma absent_ai: "computeAiContribution Undefined (Num (Fin 50)) (Num (Fin 0)) = 0"
  by (simp add: computeAiContribution_conf nullish_def)

lemma low_confidence_ai: "computeAiContribution (Num (Fin 90)) (Num (Fin 30)) (Num (Fin 0)) = 0.0675"
  unfolding computeAiContribution_spec by (simp add: spec_aiContribution_def)

lemma score_payload_fresh:
  "score_payload payload_fresh
   = fuse_scores (Num (Fin 1)) (Num (Fin 1)) (Num (Fin 0)) (Obj []) Undefined (Num (Fin 50))
       0.70 1 0.25 0.35 0.35 0"
  unfolding score_payload_def payload_fresh_def Let_def
  by (simp add: js_or_Obj js_or_def nc_simps fresh_dose fresh_decay absent_ph absent_moisture
        absent_weather absent_ai)

lemma score_payload_low_confidence:
  "score_payload payload_low_confidence
   = fuse_scores (Num (Fin 1)) (Num (Fin 1)) (Num (Fin 0)) (Obj []) (Num (Fin 90)) (Num (Fin 30))
       0.70 1 0.25 0.35 0.35 0.0675"
  unfolding score_payload_def payload_low_confidence_def Let_def
  by (simp add: js_or_Obj js_or_def nc_simps fresh_dose fresh_decay absent_ph absent_moisture
        absent_weather low_confidence_ai)

lemma score_payload_decayed:
  "score_payload (payload_decayed w a)
   = fuse_scores (Num (Fin 0)) (Num (Fin 10)) (Num (Fin 60)) (js_or w (Obj []))
       (nc (nc (get (js_or a (Obj [])) ''stressScore'') (get (js_or a (Obj [])) ''imageStress'')) Undefined)
       (nc (get (js_or a (Obj [])) ''confidence'') (Num (Fin 50)))
       (doseScore (Num (Fin 0)) (Num (Fin 10)))
       (decayScore (Num (Fin 60)) (Num (Fin 3)))
       (phScore Undefined Undefined)
       (moistureScore Undefined)
       (weatherScore (js_or w (Obj [])))
       (computeAiContribution
          (nc (nc (get (js_or a (Obj [])) ''stressScore'') (get (js_or a (Obj [])) ''imageStress'')) Undefined)
          (nc (get (js_or a (Obj [])) ''confidence'') (Num (Fin 50)))
          (Num (Fin 60)))"
  unfolding score_payload_def payload_decayed_def Let_def
  by (simp add: js_or_Obj nc_simps)

lemma fuse_fresh:
  "fuse_scores (Num (Fin 1)) (Num (Fin 1)) (Num (Fin 0)) (Obj []) Undefined (Num (Fin 50))
       0.70 1 0.25 0.35 0.35 0
   = \<lparr> riskPercent = 57, level = ''Medium'',
       breakdown = \<lparr> b_doseScore = 0.70, b_decayScore = 1, b_weatherScore = 0.35,
          b_moistureScore = 0.35, b_phScore = 0.25, b_aiContribution = 0,
          b_baseScore = 0.571, b_totalScore = 0.57 \<rparr>,
       tips = [''Recent spray: residue is likely higher in the first few days.''] \<rparr>"
proof -
  have base: "clamp (Fin (0.22 * 0.70 + 0.28 * 1 + 0.18 * 0.35 + 0.14 * 0.35 + 0.10 * 0.25)) 0 1 = 0.571"
    by simp
  have tot: "clamp (Fin (0.571 + 0)) 0 1 = 0.571" by simp
  have p: "pct 0.571 = 57" by (simp add: pct_def Math_round_def)
  have s: "sanity_rules 0 0 0.70 1 Undefined (Num (Fin 50)) 57 = 57"
    by (simp add: sanity_rules_def)
  have l: "labelFromPercent 57 = ''Medium''" by (simp add: labelFromPercent_def)
  have t: "risk_tips 57 0 (Num (Fin 1)) (Num (Fin 1)) (Obj []) Undefined
            = [''Recent spray: residue is likely higher in the first few days.'']"
    by (simp add: risk_tips_def nullish_def)
  have ts: "clamp (Fin (of_int 57 / 100)) 0 1 = 0.57" by simp
  have d: "clampNum (Num (Fin 0)) 0 = 0" by simp
  show ?thesis
    unfolding fuse_scores_def Let_def
    by (simp only: base tot p s l t ts d)
qed

lemma low_confidence_values:
  "riskPercent (score_payload payload_low_confidence) = 54"
  "pct (clamp (Fin (b_baseScore (breakdown (score_payload payload_low_confidence))
                    + b_aiContribution (breakdown (score_payload payload_low_confidence)))) 0 1) = 64"
  "clamp (Fin (b_baseScore (breakdown (score_payload payload_low_confidence))
                    + b_aiContribution (breakdown (score_payload payload_low_confidence)))) 0 1 = 0.6385"
proof -
  have base: "clamp (Fin (0.22 * 0.70 + 0.28 * 1 + 0.18 * 0.35 + 0.14 * 0.35 + 0.10 * 0.25)) 0 1 = 0.571"
    by simp
  have tot: "clamp (Fin (0.571 + 0.0675)) 0 1 = 0.6385" by simp
  have p: "pct 0.6385 = 64" by (simp add: pct_def Math_round_def)
  have s: "sanity_rules 0 0.0675 0.70 1 (Num (Fin 90)) (Num (Fin 30)) 64 = 54"
    by (simp add: sanity_rules_def)
  have d: "clampNum (Num (Fin 0)) 0 = 0" by simp
  show "riskPercent (score_payload payload_low_confidence) = 54"
    unfolding score_payload_low_confidence fuse_scores_sel
    by (simp only: base tot p s d)
  show "clamp (Fin (b_baseScore (breakdown (score_payload payload_low_confidence))
                    + b_aiContribution (breakdown (score_payload payload_low_confidence)))) 0 1 = 0.6385"
    unfolding score_payload_low_confidence fuse_scores_sel
    by (simp only: base tot)
  then show "pct (clamp (Fin (b_baseScore (breakdown (score_payload payload_low_confidence))
                    + b_aiContribution (breakdown (score_payload payload_low_confidence)))) 0 1) = 64"
    by (simp only: p)
qed

text \<open>
  Claim C6. For the inputs \<open>appliedDose = 1\<close>, \<open>recommendedDose = 1\<close>,
  \<open>daysSinceSpray = 0\<close>, \<open>halfLifeDays = 5\<close>, with no weather and no AI group, the engine
  returns the decay score \<open>1\<close>, the dose score \<open>0.70\<close>, the moisture score \<open>0.35\<close>, the pH
  score \<open>0.25\<close>, the weather score \<open>0.35\<close>, the base score \<open>0.571\<close>, the risk percentage \<open>57\<close>
  and the level Medium.
\<close>

theorem end_to_end_scenario:
  "calculateRisk payload_fresh
   = Inr \<lparr> riskPercent = 57, level = ''Medium'',
       breakdown = \<lparr> b_doseScore = 0.70, b_decayScore = 1, b_weatherScore = 0.35,
          b_moistureScore = 0.35, b_phScore = 0.25, b_aiContribution = 0,
          b_baseScore = 0.22 * 0.70 + 0.28 * 1 + 0.18 * 0.35 + 0.14 * 0.35 + 0.10 * 0.25,
          b_totalScore = 0.57 \<rparr>,
       tips = [''Recent spray: residue is likely higher in the first few days.''] \<rparr>
   \<and> (0.22 * 0.70 + 0.28 * 1 + 0.18 * 0.35 + 0.14 * 0.35 + 0.10 * 0.25 :: real) = 0.571"
proof -
  have "calculateRisk payload_fresh = Inr (score_payload payload_fresh)"
    unfolding payload_fresh_def by (rule calculateRisk_Obj)
  then have "calculateRisk payload_fresh
   = Inr \<lparr> riskPercent = 57, level = ''Medium'',
       breakdown = \<lparr> b_doseScore = 0.70, b_decayScore = 1, b_weatherScore = 0.35,
          b_moistureScore = 0.35, b_phScore = 0.25, b_aiContribution = 0,
          b_baseScore = 0.571, b_totalScore = 0.57 \<rparr>,
       tips = [''Recent spray: residue is likely higher in the first few days.''] \<rparr>"
    by (simp only: score_payload_fresh fuse_fresh)
  then show ?thesis by simp
qed

text \<open>
  Claim C5. Whenever the dose score and the decay score of a result are both below
  \<open>0.2\<close>, its risk percentage is at most \<open>45\<close>. In particular the payload with
  \<open>appliedDose = 0\<close>, \<open>recommendedDose = 10\<close>, \<open>daysSinceSpray = 60\<close>, \<open>halfLifeDays = 3\<close>
  is scored, with a dose score of \<open>0\<close> and a decay score of \<open>2\<^sup>-\<^sup>2\<^sup>0\<close>, at no more than \<open>45\<close>,
  whatever its weather and AI groups are (so for every stress score and confidence).
\<close>

theorem sanity_rule_2:
  "(calculateRisk p = Inr r \<longrightarrow> b_doseScore (breakdown r) < 0.2 \<longrightarrow> b_decayScore (breakdown r) < 0.2
      \<longrightarrow> riskPercent r \<le> 45)
   \<and> (\<exists>r'. calculateRisk (payload_decayed w a) = Inr r'
            \<and> b_doseScore (breakdown r') = 0 \<and> b_decayScore (breakdown r') = 1 / 2 ^ 20
            \<and> riskPercent r' \<le> 45)"
proof (intro conjI impI)
  assume c: "calculateRisk p = Inr r"
    and lo: "b_doseScore (breakdown r) < 0.2" "b_decayScore (breakdown r) < 0.2"
  obtain ad rd ds w st cf sDose sDecay sPh sMoist sWeather ai
    where r: "r = fuse_scores ad rd ds w st cf sDose sDecay sPh sMoist sWeather ai"
    using calculateRisk_Inr[OF c] score_payload_fuse by metis
  show "riskPercent r \<le> 45"
    using lo unfolding r by (rule fuse_scores_cap45)
next
  let ?P = "payload_decayed w a"
  have c: "calculateRisk ?P = Inr (score_payload ?P)"
    unfolding payload_decayed_def by (rule calculateRisk_Obj)
  have d: "b_doseScore (breakdown (score_payload ?P)) = 0"
    unfolding score_payload_decayed fuse_scores_sel by (rule dose_0_10)
  have e: "b_decayScore (breakdown (score_payload ?P)) = 1 / 2 ^ 20"
    unfolding score_payload_decayed fuse_scores_sel by (rule decay_60_3)
  have "riskPercent (score_payload ?P) \<le> 45"
    unfolding score_payload_decayed
    by (rule fuse_scores_cap45) (simp_all only: fuse_scores_sel dose_0_10 decay_60_3, simp_all)
  then show "\<exists>r'. calculateRisk ?P = Inr r'
            \<and> b_doseScore (breakdown r') = 0 \<and> b_decayScore (breakdown r') = 1 / 2 ^ 20
            \<and> riskPercent r' \<le> 45"
    using c d e by blast
qed

theorem sanity_rule_2_witness:
  "calculateRisk (payload_decayed Undefined Undefined) = Inr (score_payload (payload_decayed Undefined Undefined))
   \<and> b_doseScore (breakdown (score_payload (payload_decayed Undefined Undefined))) < 0.2
   \<and> b_decayScore (breakdown (score_payload (payload_decayed Undefined Undefined))) < 0.2
   \<and> riskPercent (score_payload (payload_decayed Undefined Undefined)) \<le> 45"
proof -
  let ?P = "payload_decayed Undefined Undefined"
  have c: "calculateRisk ?P = Inr (score_payload ?P)"
    unfolding payload_decayed_def by (rule calculateRisk_Obj)
  have d: "b_doseScore (breakdown (score_payload ?P)) < 0.2"
    unfolding score_payload_decayed fuse_scores_sel dose_0_10 by simp
  have e: "b_decayScore (breakdown (score_payload ?P)) < 0.2"
    unfolding score_payload_decayed fuse_scores_sel decay_60_3 by simp
  show ?thesis
    using sanity_rule_2[of ?P "score_payload ?P" Undefined Undefined] c d e by blast
qed

text \<open>
  Claim C10. In every result of the engine the total score of the breakdown is the
  final risk percentage (the one left by the sanity rules) divided by \<open>100\<close>, and it lies
  in \<open>[0, 1]\<close>. The percentage before the sanity rules is the rounding of
  \<open>clamp (baseScore + aiContribution)\<close>; the final one never exceeds it, and whenever it
  is lower, the total score is strictly less than \<open>clamp (baseScore + aiContribution)\<close>.
\<close>

theorem totalScore_after_sanity:
  assumes "calculateRisk p = Inr r"
  shows "b_totalScore (breakdown r) = of_int (riskPercent r) / 100
     \<and> 0 \<le> b_totalScore (breakdown r) \<and> b_totalScore (breakdown r) \<le> 1
     \<and> riskPercent r \<le> pct (clamp (Fin (b_baseScore (breakdown r) + b_aiContribution (breakdown r))) 0 1)
     \<and> (riskPercent r < pct (clamp (Fin (b_baseScore (breakdown r) + b_aiContribution (breakdown r))) 0 1)
          \<longrightarrow> b_totalScore (breakdown r)
                < clamp (Fin (b_baseScore (breakdown r) + b_aiContribution (breakdown r))) 0 1)"
proof -
  obtain ad rd ds w st cf sDose sDecay sPh sMoist sWeather ai
    where r: "r = fuse_scores ad rd ds w st cf sDose sDecay sPh sMoist sWeather ai"
    using calculateRisk_Inr[OF assms] score_payload_fuse by metis
  have tot: "b_totalScore (breakdown r) = of_int (riskPercent r) / 100"
    unfolding r by (rule fuse_scores_total(1))
  have "0 \<le> riskPercent r" "riskPercent r \<le> 100"
    unfolding r by (rule fuse_scores_total(2), rule fuse_scores_total(3))
  then have "0 \<le> b_totalScore (breakdown r)" "b_totalScore (breakdown r) \<le> 1"
    unfolding tot by simp_all
  moreover have "riskPercent r \<le> pct (clamp (Fin (b_baseScore (breakdown r) + b_aiContribution (breakdown r))) 0 1)"
    unfolding r by (rule fuse_scores_total(4))
  moreover have "riskPercent r < pct (clamp (Fin (b_baseScore (breakdown r) + b_aiContribution (breakdown r))) 0 1)
          \<longrightarrow> b_totalScore (breakdown r)
                < clamp (Fin (b_baseScore (breakdown r) + b_aiContribution (breakdown r))) 0 1"
    unfolding r by (rule impI, rule fuse_scores_total(5))
  ultimately show ?thesis using tot by blast
qed

theorem totalScore_after_sanity_witness:
  "calculateRisk payload_low_confidence = Inr (score_payload payload_low_confidence)
   \<and> riskPercent (score_payload payload_low_confidence) = 54
   \<and> pct (clamp (Fin (b_baseScore (breakdown (score_payload payload_low_confidence))
                    + b_aiContribution (breakdown (score_payload payload_low_confidence)))) 0 1) = 64
   \<and> b_totalScore (breakdown (score_payload payload_low_confidence)) = 0.54
   \<and> clamp (Fin (b_baseScore (breakdown (score_payload payload_low_confidence))
                    + b_aiContribution (breakdown (score_payload payload_low_confidence)))) 0 1 = 0.6385
   \<and> b_totalScore (breakdown (score_payload payload_low_confidence))
       < clamp (Fin (b_baseScore (breakdown (score_payload payload_low_confidence))
                    + b_aiContribution (breakdown (score_payload payload_low_confidence)))) 0 1"
proof -
  let ?r = "score_payload payload_low_confidence"
  have c: "calculateRisk payload_low_confidence = Inr ?r"
    unfolding payload_low_confidence_def by (rule calculateRisk_Obj)
  have lt: "riskPercent ?r < pct (clamp (Fin (b_baseScore (breakdown ?r) + b_aiContribution (breakdown ?r))) 0 1)"
    by (simp only: low_confidence_values(1,2))
  have eq: "b_totalScore (breakdown ?r) = of_int (riskPercent ?r) / 100"
    and less: "b_totalScore (breakdown ?r)
       < clamp (Fin (b_baseScore (breakdown ?r) + b_aiContribution (breakdown ?r))) 0 1"
    using totalScore_after_sanity[OF c] lt by blast+
  have tot: "b_totalScore (breakdown ?r) = 0.54"
    unfolding eq low_confidence_values(1) by simp
  show ?thesis
    by (intro conjI) (rule c, rule low_confidence_values(1), rule low_confidence_values(2),
          rule tot, rule low_confidence_values(3), rule less)
qed

section \<open>Properties of the scan endpoint\<close>

lemma inputs_fresh_get:
  "get inputs_fresh ''recommendedDose'' = Num (Fin 1)"
  "get inputs_fresh ''daysSinceSpray'' = Num (Fin 0)"
  "get inputs_fresh ''halfLifeDays'' = Num (Fin 5)"
  "get inputs_fresh ''appliedDose'' = Num (Fin 1)"
  "get inputs_fresh ''leafPh'' = Undefined"
  "get inputs_fresh ''soilPh'' = Undefined"
  "get inputs_fresh ''soilMoisture'' = Undefined"
  "get inputs_fresh ''imageStress'' = Undefined"
  "get inputs_fresh ''weather'' = Undefined"
  "get inputs_fresh ''crop'' = Undefined"
  "get inputs_fresh ''pesticide'' = Undefined"
  by (simp_all add: inputs_fresh_def)

lemma computeRisk_fresh:
  "computeRisk inputs_fresh =
     Inr \<lparr> s_riskPercent = Some 44, s_level = ''Medium'',
           s_breakdown = \<lparr> s_doseScore = Some 0.4, s_residueFactor = 1, s_leafPhScore = 0.2,
                           s_soilPhScore = 0.2, s_moistureScore = 0.2, s_weatherScore = 0.2,
                           s_imageStressScore = 0.25 \<rparr>,
           s_tips = [''Moderate risk: monitor plant response and avoid over-application.'',
                     ''Recent spray detected. Risk may drop after a few more days.'',
                     ''Always follow label safety intervals and wear protection while spraying.''] \<rparr>"
proof -
  have n: "\<not> nullish inputs_fresh" by (simp add: nullish_def inputs_fresh_def)
  have t: "toNumber (Num (Fin x)) = Some x" "toNumber Undefined = None" for x by simp_all
  have g: "get Undefined k = Undefined" for k by simp
  have r: "Math_round (clamp01 (441 / 1000) * 100) = 44"
    by (simp add: clamp01_def Math_round_def)
  have d: "clamp01 ((1 - 1) / 3 + 0.4) = 0.4" by (simp add: clamp01_def)
  have e: "clamp01 (exp (- ln 2 * (0 / 5))) = 1" by (simp add: clamp01_def)
  have b: "buildTips (Some 44) (Some (2 / 5)) 1 (1 / 5) (1 / 4) =
             [''Moderate risk: monitor plant response and avoid over-application.'',
              ''Recent spray detected. Risk may drop after a few more days.'',
              ''Always follow label safety intervals and wear protection while spraying.'']"
    by (simp add: buildTips_def)
  have lv: "riskLevelFromPercent (Some 44) = ''Medium''" by (simp add: riskLevelFromPercent_def)
  show ?thesis
    unfolding computeRisk_def Let_def
    apply (simp only: n if_False inputs_fresh_get g t option.case prod.case d e)
    apply (simp add: r b lv)
    done
qed

lemma score_payload_inputs_fresh:
  "score_payload inputs_fresh
   = fuse_scores (Num (Fin 1)) (Num (Fin 1)) (Num (Fin 0)) (Obj []) Undefined (Num (Fin 50))
       0.70 1 0.25 0.35 0.35 0"
  unfolding score_payload_def inputs_fresh_def Let_def
  by (simp add: js_or_Obj js_or_def nc_simps fresh_dose fresh_decay absent_ph absent_moisture
        absent_weather absent_ai)

lemma calculateRisk_inputs_fresh:
  "calculateRisk inputs_fresh
   = Inr \<lparr> riskPercent = 57, level = ''Medium'',
       breakdown = \<lparr> b_doseScore = 0.70, b_decayScore = 1, b_weatherScore = 0.35,
          b_moistureScore = 0.35, b_phScore = 0.25, b_aiContribution = 0,
          b_baseScore = 0.571, b_totalScore = 0.57 \<rparr>,
       tips = [''Recent spray: residue is likely higher in the first few days.''] \<rparr>"
proof -
  have "calculateRisk inputs_fresh = Inr (score_payload inputs_fresh)"
    unfolding inputs_fresh_def by (rule calculateRisk_Obj)
  then show ?thesis by (simp only: score_payload_inputs_fresh fuse_fresh)
qed

text \<open>
  The router answers with the result of its engine, unchanged; with \<open>calculateRisk\<close> as
  its engine it answers the scenario with the result of \<open>calculateRisk\<close>.
\<close>

lemma router_scan_relays:
  "router_scan engine body = Router200 r \<Longrightarrow> engine (js_or body (Obj [])) = Inr r"
  unfolding router_scan_def Let_def by (simp split: if_splits sum.splits)

lemma router_scan_fresh:
  "router_scan calculateRisk inputs_fresh
     = Router200 \<lparr> riskPercent = 57, level = ''Medium'',
         breakdown = \<lparr> b_doseScore = 0.70, b_decayScore = 1, b_weatherScore = 0.35,
            b_moistureScore = 0.35, b_phScore = 0.25, b_aiContribution = 0,
            b_baseScore = 0.571, b_totalScore = 0.57 \<rparr>,
         tips = [''Recent spray: residue is likely higher in the first few days.''] \<rparr>"
  unfolding router_scan_def Let_def
  by (simp add: js_or_def inputs_fresh_get calculateRisk_inputs_fresh)
     (simp add: inputs_fresh_def)

text \<open>
  Claim C1 does not hold of the endpoint that the server mounts. For the request with
  the inputs \<open>appliedDose = 1\<close>, \<open>recommendedDose = 1\<close>, \<open>daysSinceSpray = 0\<close>,
  \<open>halfLifeDays = 5\<close> and a PNG file, the handler of \<open>POST /api/scan\<close> answers with the
  result of its own \<open>computeRisk\<close>: the percentage \<open>44\<close>, a breakdown with the fields of
  that function, and its three tips. On the same payload \<open>calculateRisk\<close> returns the
  percentage \<open>57\<close>, the breakdown of the engine and one tip.
\<close>

theorem scan_endpoint_placeholder:
  "scan request_fresh =
     Status200
       \<lparr> s_riskPercent = Some 44, s_level = ''Medium'',
         s_breakdown = \<lparr> s_doseScore = Some 0.4, s_residueFactor = 1, s_leafPhScore = 0.2,
                         s_soilPhScore = 0.2, s_moistureScore = 0.2, s_weatherScore = 0.2,
                         s_imageStressScore = 0.25 \<rparr>,
         s_tips = [''Moderate risk: monitor plant response and avoid over-application.'',
                   ''Recent spray detected. Risk may drop after a few more days.'',
                   ''Always follow label safety intervals and wear protection while spraying.''] \<rparr>
       \<lparr> received_crop = Undefined, received_pesticide = Undefined,
         received_recommendedDose = Num (Fin 1),
         file_mimetype = Some ''image/png'', file_size = 1000 \<rparr>
   \<and> calculateRisk inputs_fresh
     = Inr \<lparr> riskPercent = 57, level = ''Medium'',
         breakdown = \<lparr> b_doseScore = 0.70, b_decayScore = 1, b_weatherScore = 0.35,
            b_moistureScore = 0.35, b_phScore = 0.25, b_aiContribution = 0,
            b_baseScore = 0.571, b_totalScore = 0.57 \<rparr>,
         tips = [''Recent spray: residue is likely higher in the first few days.''] \<rparr>"
proof (intro conjI)
  have m: "startsWith ''image/png'' ''image/''" by (simp add: startsWith_def)
  have t: "toNumber (Num (Fin 1)) = Some 1" by simp
  show "scan request_fresh =
     Status200
       \<lparr> s_riskPercent = Some 44, s_level = ''Medium'',
         s_breakdown = \<lparr> s_doseScore = Some 0.4, s_residueFactor = 1, s_leafPhScore = 0.2,
                         s_soilPhScore = 0.2, s_moistureScore = 0.2, s_weatherScore = 0.2,
                         s_imageStressScore = 0.25 \<rparr>,
         s_tips = [''Moderate risk: monitor plant response and avoid over-application.'',
                   ''Recent spray detected. Risk may drop after a few more days.'',
                   ''Always follow label safety intervals and wear protection while spraying.''] \<rparr>
       \<lparr> received_crop = Undefined, received_pesticide = Undefined,
         received_recommendedDose = Num (Fin 1),
         file_mimetype = Some ''image/png'', file_size = 1000 \<rparr>"
    unfolding scan_def request_fresh_def Let_def
    by (simp add: m inputs_fresh_get computeRisk_fresh del: toNumber.simps add: t)
  show "calculateRisk inputs_fresh
     = Inr \<lparr> riskPercent = 57, level = ''Medium'',
         breakdown = \<lparr> b_doseScore = 0.70, b_decayScore = 1, b_weatherScore = 0.35,
            b_moistureScore = 0.35, b_phScore = 0.25, b_aiContribution = 0,
            b_baseScore = 0.571, b_totalScore = 0.57 \<rparr>,
         tips = [''Recent spray: residue is likely higher in the first few days.''] \<rparr>"
    by (rule calculateRisk_inputs_fresh)
qed

section \<open>Properties of the visual stress analyzer\<close>

text \<open>
  Claim C7. When the image of the file does not decode, the analyzer returns: not
  accepted, the single reason ``Could not read image. Try another photo.'', no metrics,
  no symptoms and the neutral stress score \<open>50\<close>, whatever the options are and whatever the
  checks of the type and the size of the file found before. The model of the analyzer
  has no branch that raises.
\<close>

theorem decode_failure:
  assumes "loadImageFromFile file = None"
  shows "analyzeLeafPhoto file opts =
           \<lparr> ok = False, reasons = [CouldNotRead], metrics = None, imageStress = 50, symptoms = [] \<rparr>"
  unfolding analyzeLeafPhoto_def Let_def by (simp only: assms option.case)

theorem decode_failure_witness:
  "loadImageFromFile (Some broken_file) = None
   \<and> analyzeLeafPhoto (Some broken_file) no_opts =
        \<lparr> ok = False, reasons = [CouldNotRead], metrics = None, imageStress = 50, symptoms = [] \<rparr>
   \<and> imageStress (analyzeLeafPhoto (Some broken_file) no_opts) \<noteq> 0"
proof -
  have l: "loadImageFromFile (Some broken_file) = None"
    by (simp add: loadImageFromFile_def broken_file_def)
  show ?thesis using decode_failure[OF l, of no_opts] l by simp
qed

subsection \<open>A uniformly gray image\<close>

lemma rgbToHsv_gray: "rgbToHsv c c c = (0, 0, c / 255)"
  by (simp add: rgbToHsv_def Let_def)

lemma gray_level: "0.2126 * c + 0.7152 * c + 0.0722 * c = (c::real)"
  by simp

lemma idx_bound: "x < w \<Longrightarrow> y < h \<Longrightarrow> y * w + x < w * (h::nat)"
proof -
  assume x: "x < w" and y: "y < h"
  have "y * w + x < y * w + w" using x by simp
  also have "\<dots> = (y + 1) * w" by simp
  also have "\<dots> \<le> h * w" using y by (intro mult_le_mono1) simp
  finally show ?thesis by (simp add: mult.commute)
qed

text \<open>A gray pixel counts as low saturation, and as an edge pixel when it is in the band.\<close>

lemma pixel_step_gray:
  assumes u: "uniform data w h c" and x: "x < w" and y: "y < h"
  shows "pixel_step data w h e (y, x) st =
           st\<lparr> gray := (gray st)[y * w + x := real c],
               satLowCount := satLowCount st + 1,
               edgeTotal := (if x < e \<or> y < e \<or> int x \<ge> int w - int e \<or> int y \<ge> int h - int e
                             then edgeTotal st + 1 else edgeTotal st) \<rparr>"
proof -
  have i: "y * w + x < w * h" using x y by (rule idx_bound)
  have "data ! (4 * (y * w + x)) = c \<and> data ! (4 * (y * w + x) + 1) = c
          \<and> data ! (4 * (y * w + x) + 2) = c"
    using u i unfolding uniform_def by blast
  then have d: "data ! ((y * w + x) * 4) = c" "data ! ((y * w + x) * 4 + 1) = c"
          "data ! ((y * w + x) * 4 + 2) = c"
    by (simp_all only: mult.commute[of 4])
  show ?thesis
    unfolding pixel_step_def Let_def
    apply (simp only: prod.case d)
    apply (simp only: gray_level rgbToHsv_gray prod.case)
    apply simp
    done
qed

text \<open>
  The invariant of the pixel loop on a gray buffer: the colour counters do not move,
  every visited pixel is counted as low saturation, and its gray value is \<open>c\<close>.
\<close>

lemma scan_fold:
  assumes u: "uniform data w h c"
  shows "(\<forall>p \<in> set ps. snd p < w \<and> fst p < h) \<Longrightarrow>
     leafLike (fold (pixel_step data w h e) ps st) = leafLike st
     \<and> green (fold (pixel_step data w h e) ps st) = green st
     \<and> yellow (fold (pixel_step data w h e) ps st) = yellow st
     \<and> brown (fold (pixel_step data w h e) ps st) = brown st
     \<and> darkSpot (fold (pixel_step data w h e) ps st) = darkSpot st
     \<and> edgeBrown (fold (pixel_step data w h e) ps st) = edgeBrown st
     \<and> satLowCount (fold (pixel_step data w h e) ps st) = satLowCount st + length ps
     \<and> length (gray (fold (pixel_step data w h e) ps st)) = length (gray st)
     \<and> (\<forall>i < length (gray st).
           gray (fold (pixel_step data w h e) ps st) ! i =
             (if i \<in> (\<lambda>p. fst p * w + snd p) ` set ps then real c else gray st ! i))"
proof (induction ps arbitrary: st)
  case Nil
  then show ?case by simp
next
  case (Cons p ps)
  obtain y x where p: "p = (y, x)" by (cases p)
  have xy: "x < w" "y < h" using Cons.prems p by simp_all
  define st1 where "st1 = pixel_step data w h e (y, x) st"
  have st1: "st1 = st\<lparr> gray := (gray st)[y * w + x := real c],
               satLowCount := satLowCount st + 1,
               edgeTotal := (if x < e \<or> y < e \<or> int x \<ge> int w - int e \<or> int y \<ge> int h - int e
                             then edgeTotal st + 1 else edgeTotal st) \<rparr>"
    unfolding st1_def using u xy by (rule pixel_step_gray)
  have rest: "\<forall>p \<in> set ps. snd p < w \<and> fst p < h" using Cons.prems by simp
  note IH = Cons.IH[OF rest, of st1]
  have f: "fold (pixel_step data w h e) (p # ps) st = fold (pixel_step data w h e) ps st1"
    by (simp add: p st1_def)
  have len: "length (gray st1) = length (gray st)" by (simp add: st1)
  have g: "\<forall>i < length (gray st).
           gray (fold (pixel_step data w h e) ps st1) ! i =
             (if i \<in> (\<lambda>p. fst p * w + snd p) ` set (p # ps) then real c else gray st ! i)"
  proof (intro allI impI)
    fix i assume i: "i < length (gray st)"
    then have "gray (fold (pixel_step data w h e) ps st1) ! i =
             (if i \<in> (\<lambda>p. fst p * w + snd p) ` set ps then real c else gray st1 ! i)"
      using IH len by simp
    moreover have "gray st1 ! i = (if i = y * w + x then real c else gray st ! i)"
      using i by (simp add: st1 nth_list_update)
    ultimately show "gray (fold (pixel_step data w h e) ps st1) ! i =
             (if i \<in> (\<lambda>p. fst p * w + snd p) ` set (p # ps) then real c else gray st ! i)"
      by (auto simp: p)
  qed
  show ?case
    unfolding f using IH g len by (simp add: st1)
qed

lemma product_cover:
  assumes "i < w * h"
  shows "i \<in> (\<lambda>p. fst p * w + snd p) ` set (List.product [0..<h] [0..<w])"
proof -
  have w: "0 < w" using assms by (cases w) simp_all
  have "i div w < h" using assms w by (simp add: less_mult_imp_div_less mult.commute)
  moreover have "i mod w < w" using w by simp
  moreover have "i = (i div w) * w + i mod w" by simp
  ultimately show ?thesis
    by (intro image_eqI[where x = "(i div w, i mod w)"]) simp_all
qed

lemma scan_pixels_gray:
  assumes u: "uniform data w h c"
  shows "leafLike (scan_pixels data w h e) = 0"
    and "green (scan_pixels data w h e) = 0"
    and "yellow (scan_pixels data w h e) = 0"
    and "brown (scan_pixels data w h e) = 0"
    and "darkSpot (scan_pixels data w h e) = 0"
    and "edgeBrown (scan_pixels data w h e) = 0"
    and "satLowCount (scan_pixels data w h e) = w * h"
    and "\<forall>i < w * h. gray (scan_pixels data w h e) ! i = real c"
proof -
  let ?ps = "List.product [0..<h] [0..<w]"
  let ?st = "\<lparr> leafLike = 0, green = 0, yellow = 0, brown = 0, darkSpot = 0, satLowCount = 0,
         edgeBrown = 0, edgeTotal = 0, gray = replicate (w * h) 0 \<rparr>"
  have r: "\<forall>p \<in> set ?ps. snd p < w \<and> fst p < h" by auto
  note F = scan_fold[OF u r, of e ?st]
  show "leafLike (scan_pixels data w h e) = 0" "green (scan_pixels data w h e) = 0"
    "yellow (scan_pixels data w h e) = 0" "brown (scan_pixels data w h e) = 0"
    "darkSpot (scan_pixels data w h e) = 0" "edgeBrown (scan_pixels data w h e) = 0"
    unfolding scan_pixels_def using F by simp_all
  show "satLowCount (scan_pixels data w h e) = w * h"
    unfolding scan_pixels_def using F by (simp add: mult.commute)
  show "\<forall>i < w * h. gray (scan_pixels data w h e) ! i = real c"
    unfolding scan_pixels_def using F product_cover[of _ w h] by simp
qed

text \<open>On a flat grayscale array every Laplacian is \<open>0\<close>, and so is the variance.\<close>

lemma lap_step_flat:
  assumes g: "\<forall>i < w * h. g ! i = c"
    and y: "1 \<le> y" "y + 1 < h" and x: "1 \<le> x" "x + 1 < w"
  shows "lap_step g w (y, x) (a, b, n) = (a, b, n + 1)"
proof -
  have "x < w" "x - 1 < w" "x + 1 < w" "y < h" "y - 1 < h" "y + 1 < h" using x y by simp_all
  then have "y * w + x < w * h" "(y - 1) * w + x < w * h" "(y + 1) * w + x < w * h"
    "y * w + (x + 1) < w * h" "y * w + (x - 1) < w * h"
    by (simp_all only: idx_bound)
  then have v: "g ! (y * w + x) = c" "g ! ((y - 1) * w + x) = c" "g ! ((y + 1) * w + x) = c"
    "g ! (y * w + (x + 1)) = c" "g ! (y * w + (x - 1)) = c"
    using g by blast+
  show ?thesis
    unfolding lap_step_def Let_def
    by (simp only: prod.case v) simp
qed

lemma lap_fold_flat:
  assumes g: "\<forall>i < w * h. g ! i = c"
  shows "(\<forall>p \<in> set ps. 1 \<le> fst p \<and> fst p + 1 < h \<and> 1 \<le> snd p \<and> snd p + 1 < w) \<Longrightarrow>
         fold (lap_step g w) ps (0, 0, n) = (0, 0, n + length ps)"
proof (induction ps arbitrary: n)
  case Nil
  then show ?case by simp
next
  case (Cons p ps)
  obtain y x where p: "p = (y, x)" by (cases p)
  have "1 \<le> y" "y + 1 < h" "1 \<le> x" "x + 1 < w" using Cons.prems p by simp_all
  then have s: "lap_step g w (y, x) (0, 0, n) = (0, 0, n + 1)"
    by (rule lap_step_flat[OF g])
  have rest: "\<forall>p \<in> set ps. 1 \<le> fst p \<and> fst p + 1 < h \<and> 1 \<le> snd p \<and> snd p + 1 < w"
    using Cons.prems by simp
  show ?case using Cons.IH[OF rest, of "n + 1"] by (simp add: p s)
qed

lemma laplacianVariance_flat:
  assumes g: "\<forall>i < w * h. g ! i = c"
  shows "laplacianVariance g w h = 0"
proof -
  have r: "\<forall>p \<in> set (List.product [1..<h - 1] [1..<w - 1]).
             1 \<le> fst p \<and> fst p + 1 < h \<and> 1 \<le> snd p \<and> snd p + 1 < w"
    by auto
  show ?thesis
    unfolding laplacianVariance_def lap_fold_flat[OF g r] by simp
qed

lemma nat_max1: "1 \<le> nat (max 1 (k::int))"
  by simp

lemma getImageData_pos:
  assumes "getImageData img m = (data, w, h)"
  shows "1 \<le> w" "1 \<le> h"
proof -
  have "\<exists>k. w = nat (max 1 k)" "\<exists>k. h = nat (max 1 k)"
    using assms unfolding getImageData_def Let_def prod.inject by blast+
  then show "1 \<le> w" "1 \<le> h" using nat_max1 by auto
qed

lemma toFixed_0: "toFixed k 0 = 0"
  by (simp add: toFixed_def)

lemma toFixed_1: "toFixed 3 1 = 1"
  by (simp add: toFixed_def)

text \<open>
  Claim C8. For a photo that decodes and whose canvas buffer is uniformly gray (at
  any level, mid-gray included), the analyzer with its default options finds a detail
  variance of \<open>0\<close>, a leaf coverage of \<open>0\<close> and every colour ratio \<open>0\<close>; it does not accept
  the photo and gives the reasons ``Leaf not clearly visible'' and ``Photo looks too
  blurry''; it reports no symptom; and its stress score is \<open>8\<close>, the low-detail penalty
  \<open>0.08\<close> on a raw score of \<open>0\<close>.
\<close>

theorem uniform_gray_image:
  assumes dec: "f_decoded f = Some img"
    and gid: "getImageData img 360 = (data, w, h)"
    and u: "uniform data w h c"
  shows "\<not> ok (analyzeLeafPhoto (Some f) no_opts)
     \<and> LeafNotVisible \<in> set (reasons (analyzeLeafPhoto (Some f) no_opts))
     \<and> TooBlurry \<in> set (reasons (analyzeLeafPhoto (Some f) no_opts))
     \<and> imageStress (analyzeLeafPhoto (Some f) no_opts) = 8
     \<and> 0 \<le> imageStress (analyzeLeafPhoto (Some f) no_opts)
     \<and> imageStress (analyzeLeafPhoto (Some f) no_opts) \<le> 8
     \<and> symptoms (analyzeLeafPhoto (Some f) no_opts) = []
     \<and> (\<exists>m. metrics (analyzeLeafPhoto (Some f) no_opts) = Some m
            \<and> m_detail m = 0 \<and> m_leafCoverage m = 0 \<and> m_greenRatio m = 0
            \<and> m_yellowRatio m = 0 \<and> m_brownRatio m = 0 \<and> m_darkSpotRatio m = 0
            \<and> m_edgeBurnRatio m = 0)"
proof -
  have l: "loadImageFromFile (Some f) = Some img" by (simp add: loadImageFromFile_def dec)
  have wh: "1 \<le> w" "1 \<le> h" using getImageData_pos[OF gid] by simp_all
  then have tot: "real (max 1 (w * h)) = real (w * h)" "0 < w * h"
    by (simp_all add: max_def)
  note c = scan_pixels_gray[OF u]
  have lap: "laplacianVariance (gray (scan_pixels data w h e)) w h = 0" for e
    using c(8) by (rule laplacianVariance_flat)
  have sat: "real (w * h) / real (w * h) = 1" using tot(2) by simp
  have o: "opt_default None d = d" for d by (simp add: opt_default_def)
  have a: "analyzeLeafPhoto (Some f) no_opts =
     \<lparr> ok = False,
       reasons = (let reasons = (if \<not> startsWith (f_type f) ''image/'' then [NotAPhoto] else []);
                      reasons = (if real (f_size f) > 8 * 1024 * 1024
                                 then reasons @ [TooLarge 8] else reasons);
                      reasons = (if real (img_width img) < 480 \<or> real (img_height img) < 480
                                 then reasons @ [TooSmall 480 480] else reasons);
                      reasons = (if aspect_gt (size_ratio (img_width img) (img_height img)) 2.3
                                    \<or> aspect_lt_inv (size_ratio (img_width img) (img_height img)) 2.3
                                 then reasons @ [WeirdAspect] else reasons)
                  in reasons @ [LeafNotVisible, TooBlurry, LooksLikeGraphic]),
       metrics = Some \<lparr> m_w = w, m_h = h,
                         m_aspect = size_ratio (img_width img) (img_height img),
                         m_fileMB = toFixed 2 (real (f_size f) / (1024 * 1024)),
                         m_leafCoverage = 0, m_greenRatio = 0, m_yellowRatio = 0,
                         m_brownRatio = 0, m_darkSpotRatio = 0, m_edgeBurnRatio = 0,
                         m_satLowRatio = 1, m_detail = 0 \<rparr>,
       imageStress = 8,
       symptoms = [] \<rparr>"
    unfolding analyzeLeafPhoto_def Let_def no_opts_def
    apply (simp only: opts.select_convs o l option.case gid prod.case c lap tot sat of_nat_0 div_0
              toFixed_0 toFixed_1)
    apply (simp add: vclamp_def Math_round_def)
    done
  show ?thesis unfolding a by (simp add: Let_def)
qed

theorem uniform_gray_image_witness:
  "f_decoded gray_file = Some gray_image
   \<and> getImageData gray_image 360 = (concat (replicate (360 * 360) [128, 128, 128, 255]), 360, 360)
   \<and> uniform (concat (replicate (360 * 360) [128, 128, 128, 255])) 360 360 128
   \<and> \<not> ok (analyzeLeafPhoto (Some gray_file) no_opts)
   \<and> LeafNotVisible \<in> set (reasons (analyzeLeafPhoto (Some gray_file) no_opts))
   \<and> TooBlurry \<in> set (reasons (analyzeLeafPhoto (Some gray_file) no_opts))
   \<and> imageStress (analyzeLeafPhoto (Some gray_file) no_opts) = 8"
proof -
  have d: "f_decoded gray_file = Some gray_image" by (simp add: gray_file_def)
  have r: "Math_round 360 = 360" by (simp add: Math_round_def)
  have g: "getImageData gray_image 360 = (concat (replicate (360 * 360) [128, 128, 128, 255]), 360, 360)"
    by (simp add: getImageData_def gray_image_def Let_def r)
  have n: "concat (replicate k [128, 128, 128, 255::nat]) ! (4 * i) = 128
         \<and> concat (replicate k [128, 128, 128, 255::nat]) ! (4 * i + 1) = 128
         \<and> concat (replicate k [128, 128, 128, 255::nat]) ! (4 * i + 2) = 128" if "i < k" for i k
    using that
  proof (induction k arbitrary: i)
    case 0
    then show ?case by simp
  next
    case (Suc k)
    show ?case
    proof (cases i)
      case 0
      then show ?thesis by simp
    next
      case (Suc j)
      then have "j < k" using Suc.prems by simp
      from Suc.IH[OF this] show ?thesis
        by (simp add: Suc nth_Cons')
    qed
  qed
  have u: "uniform (concat (replicate (360 * 360) [128, 128, 128, 255])) 360 360 128"
    unfolding uniform_def using n by blast
  show ?thesis
    using uniform_gray_image[OF d g u] d g u by blast
qed


end
